theory Spec2Isabelle
  imports Complex_Main "HOL-Library.Signed_Division"
begin

unbundle bit_operations_syntax

section \<open>Double values\<close>

text \<open>
  A \<open>Double\<close> is an IEEE 754 binary64 value: a NaN, an infinity or a zero with its sign bit
  (\<open>True\<close> for minus), or a finite value other than zero. \<open>binary64\<close> rounds a real result to
  the nearest value, ties to even, with gradual underflow and overflow to infinity.
\<close>

datatype Double = NaN | Infinity bool | Zero bool | Finite real

definition pow2 :: "int \<Rightarrow> real" where
  "pow2 k = (if 0 \<le> k then 2 ^ nat k else 1 / 2 ^ nat (- k))"

definition roundHalfEven :: "real \<Rightarrow> int" where
  "roundHalfEven x =
     (if x - of_int \<lfloor>x\<rfloor> < 1 / 2 then \<lfloor>x\<rfloor>
      else if 1 / 2 < x - of_int \<lfloor>x\<rfloor> then \<lfloor>x\<rfloor> + 1
      else if even \<lfloor>x\<rfloor> then \<lfloor>x\<rfloor> else \<lfloor>x\<rfloor> + 1)"

definition exponent :: "real \<Rightarrow> int" where
  "exponent x = \<lfloor>log 2 \<bar>x\<bar>\<rfloor>"

definition binary64 :: "real \<Rightarrow> Double" where
  "binary64 r =
     (if r = 0 then Zero False
      else
        let q = max (exponent r - 52) (- 1074);
            m = roundHalfEven (r / pow2 q)
        in if m = 0 then Zero (r < 0)
           else if pow2 1024 \<le> \<bar>of_int m * pow2 q\<bar> then Infinity (r < 0)
           else Finite (of_int m * pow2 q))"

definition signBit :: "Double \<Rightarrow> bool" where
  "signBit d = (case d of NaN \<Rightarrow> False | Infinity s \<Rightarrow> s | Zero s \<Rightarrow> s | Finite r \<Rightarrow> r < 0)"

text \<open>The quotient and the product of two \<open>Double\<close> values.\<close>

fun ddiv :: "Double \<Rightarrow> Double \<Rightarrow> Double" where
  "ddiv NaN b = NaN"
| "ddiv a NaN = NaN"
| "ddiv (Infinity s) (Infinity s') = NaN"
| "ddiv (Zero s) (Zero s') = NaN"
| "ddiv (Infinity s) b = Infinity (s \<noteq> signBit b)"
| "ddiv a (Infinity s') = Zero (signBit a \<noteq> s')"
| "ddiv (Zero s) (Finite y) = Zero (s \<noteq> (y < 0))"
| "ddiv (Finite x) (Zero s') = Infinity ((x < 0) \<noteq> s')"
| "ddiv (Finite x) (Finite y) = binary64 (x / y)"

fun dmul :: "Double \<Rightarrow> Double \<Rightarrow> Double" where
  "dmul NaN b = NaN"
| "dmul a NaN = NaN"
| "dmul (Infinity s) (Zero s') = NaN"
| "dmul (Zero s) (Infinity s') = NaN"
| "dmul (Infinity s) b = Infinity (s \<noteq> signBit b)"
| "dmul a (Infinity s') = Infinity (signBit a \<noteq> s')"
| "dmul (Zero s) b = Zero (s \<noteq> signBit b)"
| "dmul a (Zero s') = Zero (signBit a \<noteq> s')"
| "dmul (Finite x) (Finite y) = binary64 (x * y)"

text \<open>
  \<open>a > b\<close>: false when either side is a NaN; the two zeros are equal. \<open>rank\<close> places a
  value on the extended number line.
\<close>

definition rank :: "Double \<Rightarrow> int \<times> real" where
  "rank d =
     (case d of
        NaN \<Rightarrow> (0, 0)
      | Infinity s \<Rightarrow> (if s then - 1 else 1, 0)
      | Zero s \<Rightarrow> (0, 0)
      | Finite r \<Rightarrow> (0, r))"

definition dgt :: "Double \<Rightarrow> Double \<Rightarrow> bool" where
  "dgt a b \<longleftrightarrow>
     a \<noteq> NaN \<and> b \<noteq> NaN
     \<and> (fst (rank b) < fst (rank a)
         \<or> (fst (rank a) = fst (rank b) \<and> snd (rank b) < snd (rank a)))"

text \<open>\<open>Int.toDouble()\<close> is exact: an \<open>Int\<close> has 32 bits.\<close>

definition ofInt :: "int \<Rightarrow> Double" where
  "ofInt n = (if n = 0 then Zero False else Finite (of_int n))"

text \<open>
  \<open>Double.toInt()\<close> rounds towards zero and saturates at the ends of \<open>Int\<close>; a NaN gives 0.
\<close>

definition toInt :: "Double \<Rightarrow> int" where
  "toInt d =
     (case d of
        NaN \<Rightarrow> 0
      | Infinity s \<Rightarrow> (if s then - 2147483648 else 2147483647)
      | Zero s \<Rightarrow> 0
      | Finite v \<Rightarrow>
          if 2147483647 \<le> v then 2147483647
          else if v \<le> - 2147483648 then - 2147483648
          else if 0 \<le> v then \<lfloor>v\<rfloor> else \<lceil>v\<rceil>)"

text \<open>The real number a finite \<open>Double\<close> stands for.\<close>

definition finiteValue :: "Double \<Rightarrow> real option" where
  "finiteValue d =
     (case d of Finite r \<Rightarrow> Some r | Zero s \<Rightarrow> Some 0 | _ \<Rightarrow> None)"

section \<open>Composition path (ios/VideoTransformer.swift)\<close>

text \<open>
  The geometry of this path is computed in \<open>real\<close>: \<open>CGFloat\<close> values are taken as finite and
  the arithmetic as exact. Where Swift divides by zero or has parsed an infinity or a NaN,
  the values leave the finite numbers: the composition of such a run is not described, and
  a completed export has the outcome \<open>NonFinite\<close> (see \<open>cropVideoRun\<close>). \<open>Int\<close> is \<open>int\<close>.
\<close>

subsection \<open>CoreGraphics values\<close>

record CGSize =
  width :: real
  height :: real

record CGRect =
  origin_x :: real
  origin_y :: real
  size_width :: real
  size_height :: real

text \<open>
  \<open>CGAffineTransform\<close> is the matrix \<open>[a b 0; c d 0; tx ty 1]\<close> acting on row vectors
  \<open>[x y 1]\<close>; the fields carry the prefix \<open>m\<close>.
\<close>

record CGAffineTransform =
  ma :: real
  mb :: real
  mc :: real
  md :: real
  mtx :: real
  mty :: real

definition identity :: CGAffineTransform where
  "identity = \<lparr>ma = 1, mb = 0, mc = 0, md = 1, mtx = 0, mty = 0\<rparr>"

text \<open>\<open>CGAffineTransform(translationX:y:)\<close>, \<open>(rotationAngle:)\<close> and \<open>(scaleX:y:)\<close>.\<close>

definition translation :: "real \<Rightarrow> real \<Rightarrow> CGAffineTransform" where
  "translation x y = \<lparr>ma = 1, mb = 0, mc = 0, md = 1, mtx = x, mty = y\<rparr>"

definition rotation :: "real \<Rightarrow> CGAffineTransform" where
  "rotation angle =
     \<lparr>ma = cos angle, mb = sin angle, mc = - sin angle, md = cos angle, mtx = 0, mty = 0\<rparr>"

definition scale :: "real \<Rightarrow> real \<Rightarrow> CGAffineTransform" where
  "scale sx sy = \<lparr>ma = sx, mb = 0, mc = 0, md = sy, mtx = 0, mty = 0\<rparr>"

text \<open>\<open>t1.concatenating(t2)\<close> is the matrix product \<open>t1 * t2\<close>.\<close>

definition concatenating :: "CGAffineTransform \<Rightarrow> CGAffineTransform \<Rightarrow> CGAffineTransform" where
  "concatenating t1 t2 =
     \<lparr>ma = ma t1 * ma t2 + mb t1 * mc t2,
      mb = ma t1 * mb t2 + mb t1 * md t2,
      mc = mc t1 * ma t2 + md t1 * mc t2,
      md = mc t1 * mb t2 + md t1 * md t2,
      mtx = mtx t1 * ma t2 + mty t1 * mc t2 + mtx t2,
      mty = mtx t1 * mb t2 + mty t1 * md t2 + mty t2\<rparr>"

text \<open>
  \<open>t.rotated(by:)\<close>, \<open>t.translatedBy(x:y:)\<close> and \<open>t.scaledBy(x:y:)\<close> multiply the new
  matrix on the left of \<open>t\<close>.
\<close>

definition rotated :: "CGAffineTransform \<Rightarrow> real \<Rightarrow> CGAffineTransform" where
  "rotated t angle = concatenating (rotation angle) t"

definition translatedBy :: "CGAffineTransform \<Rightarrow> real \<Rightarrow> real \<Rightarrow> CGAffineTransform" where
  "translatedBy t x y = concatenating (translation x y) t"

definition scaledBy :: "CGAffineTransform \<Rightarrow> real \<Rightarrow> real \<Rightarrow> CGAffineTransform" where
  "scaledBy t sx sy = concatenating (scale sx sy) t"

text \<open>The image of a point under a transform.\<close>

definition applying :: "CGAffineTransform \<Rightarrow> real \<times> real \<Rightarrow> real \<times> real" where
  "applying t p =
     (ma t * fst p + mc t * snd p + mtx t, mb t * fst p + md t * snd p + mty t)"

subsection \<open>Assets, platform outcomes and the exported composition\<close>

record AVAssetTrack =
  naturalSize :: CGSize
  preferredTransform :: CGAffineTransform

record AVAsset =
  videoTracks :: "AVAssetTrack list"
  audioTracks :: nat

datatype ExportStatus = Completed | Failed | Cancelled | OtherStatus

text \<open>
  What the platform answers to the calls that can fail: \<open>URL(string:)\<close>,
  \<open>addMutableTrack\<close>, \<open>insertTimeRange\<close>, \<open>AVAssetExportSession(...)\<close> and the status the
  export ends in.
\<close>

record Platform =
  urlValid :: bool
  addTrackOk :: bool
  insertTimeRangeOk :: bool
  exportSessionOk :: bool
  exportStatus :: ExportStatus

text \<open>
  The video composition handed to the export session: the transform and the crop rectangle
  set on the single layer instruction, and the render size.
\<close>

record VideoComposition =
  layerTransform :: CGAffineTransform
  cropRectangle :: "CGRect option"
  renderSize :: CGSize

text \<open>
  How a call ends: the export resolves with the composition it was given, or the promise is
  rejected with a code. \<open>NonFinite\<close> stands for the completed export of a composition
  that was computed from an infinity or a NaN; its numbers are not modelled.
\<close>

datatype Outcome = Resolved VideoComposition | Rejected string | NonFinite

text \<open>The platform objects a call creates and reads, in order.\<close>

datatype Effect =
  AssetCreated | VideoTracksRead | CompositionCreated | CompositionTrackAdded
  | TimeRangeInserted | AudioTracksRead | VideoCompositionCreated | ExportSessionCreated
  | ExportStarted

definition first :: "'a list \<Rightarrow> 'a option" where
  "first xs = (case xs of [] \<Rightarrow> None | v # _ \<Rightarrow> Some v)"

definition export :: "Platform \<Rightarrow> VideoComposition \<Rightarrow> Outcome" where
  "export p vc =
     (if \<not> exportSessionOk p then Rejected ''EXPORT_ERROR''
      else case exportStatus p of
             Completed \<Rightarrow> Resolved vc
           | Failed \<Rightarrow> Rejected ''EXPORT_FAILED''
           | Cancelled \<Rightarrow> Rejected ''EXPORT_CANCELLED''
           | OtherStatus \<Rightarrow> Rejected ''EXPORT_ERROR'')"

text \<open>
  The export of a composition that holds a value computed from an infinity or a NaN: the
  rejections are those of \<open>export\<close>, and a completed export is \<open>NonFinite\<close>.
\<close>

definition exportNonFinite :: "Platform \<Rightarrow> Outcome" where
  "exportNonFinite p =
     (if \<not> exportSessionOk p then Rejected ''EXPORT_ERROR''
      else case exportStatus p of
             Completed \<Rightarrow> NonFinite
           | Failed \<Rightarrow> Rejected ''EXPORT_FAILED''
           | Cancelled \<Rightarrow> Rejected ''EXPORT_CANCELLED''
           | OtherStatus \<Rightarrow> Rejected ''EXPORT_ERROR'')"

text \<open>What a run adds to the platform objects from the export session on.\<close>

definition exportEffects :: "Platform \<Rightarrow> Effect list" where
  "exportEffects p = (if exportSessionOk p then [ExportSessionCreated, ExportStarted] else [])"

subsection \<open>rotateVideo\<close>

text \<open>
  The \<open>if angle == 90 ... else\<close> chain of \<open>rotateVideo\<close> that sets \<open>transform\<close> and
  \<open>renderSize\<close> from \<open>videoWidth\<close>, \<open>videoHeight\<close> and \<open>angle\<close>.
\<close>

definition rotationTransform :: "real \<Rightarrow> real \<Rightarrow> int \<Rightarrow> CGAffineTransform \<times> CGSize" where
  "rotationTransform videoWidth videoHeight angle =
     (if angle = 90 then
        (rotated (translation videoHeight 0) (pi / 2),
         \<lparr>width = videoHeight, height = videoWidth\<rparr>)
      else if angle = - 90 \<or> angle = 270 then
        (rotated (translation 0 videoWidth) (- pi / 2),
         \<lparr>width = videoHeight, height = videoWidth\<rparr>)
      else if angle = 180 then
        (rotated (translation videoWidth videoHeight) pi,
         \<lparr>width = videoWidth, height = videoHeight\<rparr>)
      else
        (identity, \<lparr>width = videoWidth, height = videoHeight\<rparr>))"

definition rotateVideo :: "Platform \<Rightarrow> AVAsset \<Rightarrow> int \<Rightarrow> Outcome" where
  "rotateVideo p asset angle =
     (if \<not> urlValid p then Rejected ''INVALID_PATH''
      else case first (videoTracks asset) of
        None \<Rightarrow> Rejected ''NO_VIDEO_TRACK''
      | Some videoTrack \<Rightarrow>
          if \<not> addTrackOk p then Rejected ''COMPOSITION_ERROR''
          else if \<not> insertTimeRangeOk p then Rejected ''INSERT_ERROR''
          else
            let videoWidth = width (naturalSize videoTrack);
                videoHeight = height (naturalSize videoTrack);
                (transform, renderSize) = rotationTransform videoWidth videoHeight angle
            in export p \<lparr>layerTransform = transform, cropRectangle = None,
                          renderSize = renderSize\<rparr>)"

subsection \<open>Library functions used by cropVideo and cropAndRotateVideo\<close>

text \<open>
  \<open>atan2\<close> of the C library, on finite arguments (signed zeros are not distinguished).
\<close>

definition atan2 :: "real \<Rightarrow> real \<Rightarrow> real" where
  "atan2 y x =
     (if 0 < x then arctan (y / x)
      else if x < 0 \<and> 0 \<le> y then arctan (y / x) + pi
      else if x < 0 then arctan (y / x) - pi
      else if 0 < y then pi / 2
      else if y < 0 then - pi / 2
      else 0)"

text \<open>
  Splitting a string at a separator character. \<open>splitOn\<close> keeps empty parts;
  Swift's \<open>split(separator:)\<close> omits them.
\<close>

fun splitOn :: "char \<Rightarrow> string \<Rightarrow> string list" where
  "splitOn sep [] = [] # []"
| "splitOn sep (ch # cs) =
     (if ch = sep then [] # splitOn sep cs
      else (ch # hd (splitOn sep cs)) # tl (splitOn sep cs))"

definition split_separator :: "string \<Rightarrow> char \<Rightarrow> string list" where
  "split_separator s sep = filter (\<lambda>part. part \<noteq> []) (splitOn sep s)"

text \<open>\<open>lowercased()\<close> on ASCII letters; other characters are kept.\<close>

definition lowerChar :: "char \<Rightarrow> char" where
  "lowerChar ch =
     (if 65 \<le> (of_char ch :: nat) \<and> (of_char ch :: nat) \<le> 90
      then char_of (of_char ch + 32 :: nat) else ch)"

definition lowercased :: "string \<Rightarrow> string" where
  "lowercased s = map lowerChar s"

text \<open>
  The guard that parses the aspect ratio. The number parser (\<open>Double(_:)\<close> in Swift,
  \<open>toDoubleOrNull\<close> in Kotlin) belongs to the platform and is the parameter \<open>toDouble\<close>.
\<close>

definition parseAspectRatio ::
  "(string \<Rightarrow> Double option) \<Rightarrow> string \<Rightarrow> (Double \<times> Double) option" where
  "parseAspectRatio toDouble aspectRatio =
     (let components = split_separator aspectRatio CHR '':''
      in if length components = 2 then
           (case toDouble (components ! 0) of
              None \<Rightarrow> None
            | Some widthRatio \<Rightarrow>
                (case toDouble (components ! 1) of
                   None \<Rightarrow> None
                 | Some heightRatio \<Rightarrow> Some (widthRatio, heightRatio)))
         else None)"

text \<open>
  A number parser for the worked examples: it reads the unsigned decimal integers of at
  most 15 digits, which a \<open>Double\<close> holds exactly and on which \<open>Double(_:)\<close> and
  \<open>toDoubleOrNull\<close> give the same value, and nothing else.
\<close>

fun digitsValue :: "string \<Rightarrow> nat \<Rightarrow> nat option" where
  "digitsValue [] acc = Some acc"
| "digitsValue (ch # cs) acc =
     (if 48 \<le> (of_char ch :: nat) \<and> (of_char ch :: nat) \<le> 57
      then digitsValue cs (10 * acc + (of_char ch - 48)) else None)"

definition decimalDigits :: "string \<Rightarrow> Double option" where
  "decimalDigits s =
     (if s = [] \<or> 15 < length s then None
      else map_option (\<lambda>n. ofInt (int n)) (digitsValue s 0))"

subsection \<open>cropVideo\<close>

definition isRotated :: "CGAffineTransform \<Rightarrow> bool" where
  "isRotated originalTransform =
     (let angle = atan2 (mb originalTransform) (ma originalTransform)
      in \<bar>angle - pi / 2\<bar> < 0.01 \<or> \<bar>angle + pi / 2\<bar> < 0.01)"

text \<open>\<open>displayWidth\<close> and \<open>displayHeight\<close>: the natural size, swapped when rotated.\<close>

definition displaySize :: "CGSize \<Rightarrow> CGAffineTransform \<Rightarrow> CGSize" where
  "displaySize natSize originalTransform =
     (if isRotated originalTransform
      then \<lparr>width = height natSize, height = width natSize\<rparr>
      else \<lparr>width = width natSize, height = height natSize\<rparr>)"

text \<open>
  The divisions that give the crop dimensions have divisors other than zero: the display
  height and, where the target ratio exceeds the display aspect ratio, the target ratio.
\<close>

definition cropDivides :: "CGSize \<Rightarrow> CGAffineTransform \<Rightarrow> real \<Rightarrow> bool" where
  "cropDivides natSize originalTransform targetAspectRatio \<longleftrightarrow>
     height (displaySize natSize originalTransform) \<noteq> 0
     \<and> (if targetAspectRatio > width (displaySize natSize originalTransform)
                               / height (displaySize natSize originalTransform)
          then targetAspectRatio \<noteq> 0 else True)"

text \<open>
  \<open>cropDisplayWidth\<close> and \<open>cropDisplayHeight\<close>, where \<open>cropDivides\<close> holds. With a divisor
  that is zero the code has an infinity or a NaN here; \<open>cropVideoRun\<close> and
  \<open>cropAndRotateVideo\<close> below do not use these values then.
\<close>

definition cropDisplaySize :: "CGSize \<Rightarrow> CGAffineTransform \<Rightarrow> real \<Rightarrow> CGSize" where
  "cropDisplaySize natSize originalTransform targetAspectRatio =
     (let displayWidth = width (displaySize natSize originalTransform);
          displayHeight = height (displaySize natSize originalTransform);
          displayAspectRatio = displayWidth / displayHeight
      in if targetAspectRatio > displayAspectRatio
         then \<lparr>width = displayWidth, height = displayWidth / targetAspectRatio\<rparr>
         else \<lparr>width = displayHeight * targetAspectRatio, height = displayHeight\<rparr>)"

text \<open>\<open>cropWidth\<close> and \<open>cropHeight\<close>, back in natural coordinates.\<close>

definition cropSize :: "CGSize \<Rightarrow> CGAffineTransform \<Rightarrow> real \<Rightarrow> CGSize" where
  "cropSize natSize originalTransform targetAspectRatio =
     (let cropDisplayWidth = width (cropDisplaySize natSize originalTransform targetAspectRatio);
          cropDisplayHeight = height (cropDisplaySize natSize originalTransform targetAspectRatio)
      in if isRotated originalTransform
         then \<lparr>width = cropDisplayHeight, height = cropDisplayWidth\<rparr>
         else \<lparr>width = cropDisplayWidth, height = cropDisplayHeight\<rparr>)"

text \<open>The \<open>switch position.lowercased()\<close> of \<open>cropVideo\<close>: \<open>(cropX, cropY)\<close>.\<close>

definition cropOrigin :: "string \<Rightarrow> CGSize \<Rightarrow> real \<Rightarrow> real \<Rightarrow> real \<times> real" where
  "cropOrigin position natSize cropWidth cropHeight =
     (let pos = lowercased position in
      if pos = ''center'' then
        ((width natSize - cropWidth) / 2, (height natSize - cropHeight) / 2)
      else if pos = ''top'' then
        ((width natSize - cropWidth) / 2, 0)
      else if pos = ''bottom'' then
        ((width natSize - cropWidth) / 2, height natSize - cropHeight)
      else if pos = ''left'' then
        (0, (height natSize - cropHeight) / 2)
      else if pos = ''right'' then
        (width natSize - cropWidth, (height natSize - cropHeight) / 2)
      else if pos = ''top-left'' then
        (0, 0)
      else if pos = ''top-right'' then
        (width natSize - cropWidth, 0)
      else if pos = ''bottom-left'' then
        (0, height natSize - cropHeight)
      else if pos = ''bottom-right'' then
        (width natSize - cropWidth, height natSize - cropHeight)
      else
        ((width natSize - cropWidth) / 2, (height natSize - cropHeight) / 2))"

definition cropRect :: "CGSize \<Rightarrow> CGAffineTransform \<Rightarrow> real \<Rightarrow> string \<Rightarrow> CGRect" where
  "cropRect natSize originalTransform targetAspectRatio position =
     (let cropWidth = width (cropSize natSize originalTransform targetAspectRatio);
          cropHeight = height (cropSize natSize originalTransform targetAspectRatio);
          cropXY = cropOrigin position natSize cropWidth cropHeight
      in \<lparr>origin_x = fst cropXY, origin_y = snd cropXY,
          size_width = cropWidth, size_height = cropHeight\<rparr>)"

text \<open>\<open>finalTransform\<close>: the original transform concatenated with the crop transform.\<close>

definition cropFinalTransform :: "CGSize \<Rightarrow> CGAffineTransform \<Rightarrow> real \<Rightarrow> string \<Rightarrow> CGAffineTransform" where
  "cropFinalTransform natSize originalTransform targetAspectRatio position =
     (let r = cropRect natSize originalTransform targetAspectRatio position;
          renderSize = cropDisplaySize natSize originalTransform targetAspectRatio;
          scaleX = width renderSize / size_width r;
          scaleY = height renderSize / size_height r;
          cropTransform = scaledBy (translatedBy identity (- origin_x r) (- origin_y r)) scaleX scaleY
      in concatenating originalTransform cropTransform)"

text \<open>
  \<open>cropVideo\<close> with the platform objects it has created and read when it ends. The code
  computes an infinity or a NaN on its way exactly when a parsed number is not finite or a
  divisor is zero: the second parsed number, a divisor of the crop dimensions, or the crop
  width or height that the scale factors are divided by. It goes on to the export with it;
  the model leaves the composition open there (\<open>exportNonFinite\<close>).
\<close>

definition cropVideoRun ::
  "(string \<Rightarrow> Double option) \<Rightarrow> Platform \<Rightarrow> AVAsset \<Rightarrow> string \<Rightarrow> string
     \<Rightarrow> Outcome \<times> Effect list" where
  "cropVideoRun toDouble p asset aspectRatio position =
     (if \<not> urlValid p then (Rejected ''INVALID_PATH'', [])
      else case first (videoTracks asset) of
        None \<Rightarrow> (Rejected ''NO_VIDEO_TRACK'', [AssetCreated, VideoTracksRead])
      | Some videoTrack \<Rightarrow>
          (case parseAspectRatio toDouble aspectRatio of
             None \<Rightarrow> (Rejected ''INVALID_ASPECT_RATIO'', [AssetCreated, VideoTracksRead])
           | Some (widthRatio, heightRatio) \<Rightarrow>
               if \<not> addTrackOk p then
                 (Rejected ''COMPOSITION_ERROR'',
                  [AssetCreated, VideoTracksRead, CompositionCreated])
               else if \<not> insertTimeRangeOk p then
                 (Rejected ''INSERT_ERROR'',
                  [AssetCreated, VideoTracksRead, CompositionCreated, CompositionTrackAdded])
               else
                 (let prepared =
                        [AssetCreated, VideoTracksRead, CompositionCreated,
                         CompositionTrackAdded, TimeRangeInserted, AudioTracksRead,
                         VideoCompositionCreated];
                      natSize = naturalSize videoTrack;
                      originalTransform = preferredTransform videoTrack
                  in case (finiteValue widthRatio, finiteValue heightRatio) of
                       (Some w, Some h) \<Rightarrow>
                         (let targetAspectRatio = w / h
                          in if h = 0
                                \<or> \<not> cropDivides natSize originalTransform targetAspectRatio
                                \<or> width (cropSize natSize originalTransform targetAspectRatio) = 0
                                \<or> height (cropSize natSize originalTransform targetAspectRatio) = 0
                             then (exportNonFinite p, prepared @ exportEffects p)
                             else
                               (export p
                                  \<lparr>layerTransform =
                                     cropFinalTransform natSize originalTransform
                                       targetAspectRatio position,
                                   cropRectangle = None,
                                   renderSize =
                                     cropDisplaySize natSize originalTransform
                                       targetAspectRatio\<rparr>,
                                prepared @ exportEffects p))
                     | (Some w, None) \<Rightarrow> (exportNonFinite p, prepared @ exportEffects p)
                     | (None, h) \<Rightarrow> (exportNonFinite p, prepared @ exportEffects p))))"

definition cropVideo ::
  "(string \<Rightarrow> Double option) \<Rightarrow> Platform \<Rightarrow> AVAsset \<Rightarrow> string \<Rightarrow> string \<Rightarrow> Outcome" where
  "cropVideo toDouble p asset aspectRatio position =
     fst (cropVideoRun toDouble p asset aspectRatio position)"

subsection \<open>cropAndRotateVideo\<close>

text \<open>
  The \<open>switch position.lowercased()\<close> of \<open>cropAndRotateVideo\<close>: it has the cases
  \<open>center\<close>, \<open>top\<close> and \<open>bottom\<close> only.
\<close>

definition cropAndRotateOrigin :: "string \<Rightarrow> CGSize \<Rightarrow> real \<Rightarrow> real \<Rightarrow> real \<times> real" where
  "cropAndRotateOrigin position natSize cropWidth cropHeight =
     (let pos = lowercased position in
      if pos = ''center'' then
        ((width natSize - cropWidth) / 2, (height natSize - cropHeight) / 2)
      else if pos = ''top'' then
        ((width natSize - cropWidth) / 2, 0)
      else if pos = ''bottom'' then
        ((width natSize - cropWidth) / 2, height natSize - cropHeight)
      else
        ((width natSize - cropWidth) / 2, (height natSize - cropHeight) / 2))"

definition cropAndRotateRect :: "CGSize \<Rightarrow> CGAffineTransform \<Rightarrow> real \<Rightarrow> string \<Rightarrow> CGRect" where
  "cropAndRotateRect natSize transform targetAspectRatio position =
     (let cropWidth = width (cropSize natSize transform targetAspectRatio);
          cropHeight = height (cropSize natSize transform targetAspectRatio);
          cropXY = cropAndRotateOrigin position natSize cropWidth cropHeight
      in \<lparr>origin_x = fst cropXY, origin_y = snd cropXY,
          size_width = cropWidth, size_height = cropHeight\<rparr>)"



section \<open>JavaScript entry points (index.js)\<close>

datatype JSValue =
  JSUndefined | JSNull | JSBoolean bool | JSNumber real | JSNaN | JSString string | JSObject

text \<open>\<open>!inputPath || typeof inputPath !== 'string'\<close>: only a non-empty string passes.\<close>

definition invalidString :: "JSValue \<Rightarrow> bool" where
  "invalidString v = (case v of JSString s \<Rightarrow> s = [] | _ \<Rightarrow> True)"

definition validAngles :: "JSValue list" where
  "validAngles = [JSNumber 90, JSNumber (- 90), JSNumber 180, JSNumber 270]"

text \<open>\<open>Array.prototype.includes\<close> compares with SameValueZero: \<open>NaN\<close> is found if present.\<close>

definition array_includes :: "JSValue list \<Rightarrow> JSValue \<Rightarrow> bool" where
  "array_includes xs v = (v \<in> set xs)"

text \<open>
  The native module is a parameter: it answers with \<open>Inr outputPath\<close> or with
  \<open>Inl message\<close>. The JavaScript functions return the same way (\<open>Inl\<close> is the message of the
  thrown \<open>Error\<close>).
\<close>

definition js_rotateVideo ::
  "(JSValue \<Rightarrow> JSValue \<Rightarrow> string + string) \<Rightarrow> JSValue \<Rightarrow> JSValue \<Rightarrow> string + string" where
  "js_rotateVideo native inputPath angle =
     (if invalidString inputPath then Inl ''inputPath must be a valid string''
      else if \<not> array_includes validAngles angle then Inl ''angle must be one of: 90, -90, 180, 270''
      else case native inputPath angle of
             Inr outputPath \<Rightarrow> Inr outputPath
           | Inl message \<Rightarrow> Inl (''Failed to rotate video: '' @ message))"

definition js_cropAndRotateVideo ::
  "(JSValue \<Rightarrow> JSValue \<Rightarrow> JSValue \<Rightarrow> JSValue \<Rightarrow> string + string) \<Rightarrow>
     JSValue \<Rightarrow> JSValue \<Rightarrow> JSValue \<Rightarrow> JSValue option \<Rightarrow> string + string" where
  "js_cropAndRotateVideo native inputPath aspectRatio angle optionsPosition =
     (if invalidString inputPath then Inl ''inputPath must be a valid string''
      else if invalidString aspectRatio
        then Inl ''aspectRatio must be a valid string (e.g., \"16:9\", \"1:1\")''
      else if \<not> array_includes validAngles angle then Inl ''angle must be one of: 90, -90, 180, 270''
      else
        let position = (case optionsPosition of
                          None \<Rightarrow> JSString ''center''
                        | Some v \<Rightarrow> if v \<in> {JSUndefined, JSNull, JSBoolean False, JSNumber 0,
                                                JSNaN, JSString []}
                                    then JSString ''center'' else v)
        in case native inputPath aspectRatio position angle of
             Inr outputPath \<Rightarrow> Inr outputPath
           | Inl message \<Rightarrow> Inl (''Failed to crop and rotate video: '' @ message))"

section \<open>Pipeline path (VideoTransformerModule.kt)\<close>

subsection \<open>calculateCropRect\<close>

record CropRect =
  crop_x :: int
  crop_y :: int
  crop_width :: int
  crop_height :: int

text \<open>
  \<open>int32\<close> is the wrap-around of \<open>Int\<close> arithmetic; \<open>sdiv\<close> is the truncating integer
  division. The quotient and the product with the target ratio are those of \<open>Double\<close>
  (\<open>ddiv\<close>, \<open>dmul\<close>), the comparison is \<open>dgt\<close> and the cut to an \<open>Int\<close> is \<open>toInt\<close>.
\<close>

definition int32 :: "int \<Rightarrow> int" where
  "int32 v = (v + 2147483648) mod 4294967296 - 2147483648"

definition calculateCropRect :: "int \<Rightarrow> int \<Rightarrow> Double \<Rightarrow> string \<Rightarrow> CropRect" where
  "calculateCropRect videoWidth videoHeight targetAspectRatio position =
     (let videoAspectRatio = ddiv (ofInt videoWidth) (ofInt videoHeight);
          cropWidth = (if dgt targetAspectRatio videoAspectRatio then videoWidth
                       else toInt (dmul (ofInt videoHeight) targetAspectRatio));
          cropHeight = (if dgt targetAspectRatio videoAspectRatio
                        then toInt (ddiv (ofInt videoWidth) targetAspectRatio)
                        else videoHeight);
          halfX = int32 (videoWidth - cropWidth) sdiv 2;
          halfY = int32 (videoHeight - cropHeight) sdiv 2;
          fullX = int32 (videoWidth - cropWidth);
          fullY = int32 (videoHeight - cropHeight);
          pos = lowercased position;
          cropXY =
            (if pos = ''center'' then (halfX, halfY)
             else if pos = ''top'' then (halfX, 0)
             else if pos = ''bottom'' then (halfX, fullY)
             else if pos = ''left'' then (0, halfY)
             else if pos = ''right'' then (fullX, halfY)
             else if pos = ''top-left'' then (0, 0)
             else if pos = ''top-right'' then (fullX, 0)
             else if pos = ''bottom-left'' then (0, fullY)
             else if pos = ''bottom-right'' then (fullX, fullY)
             else (halfX, halfY))
      in \<lparr>crop_x = fst cropXY, crop_y = snd cropXY,
          crop_width = cropWidth, crop_height = cropHeight\<rparr>)"

subsection \<open>The source container and the muxer\<close>

record BufferInfo =
  info_offset :: int
  info_size :: int
  info_presentationTimeUs :: int
  info_flags :: int

text \<open>A compressed sample of the source: its bytes, time and flags.\<close>

record Sample =
  sampleData :: "nat list"
  sampleTime :: int
  sampleFlags :: int

text \<open>
  A track of the source by the prefix of its MIME type: \<open>video/\<close> with \<open>KEY_WIDTH\<close> and
  \<open>KEY_HEIGHT\<close>, \<open>audio/\<close> with its samples in read order, or anything else.
\<close>

datatype Track = VideoTrack int int | AudioTrack "Sample list" | OtherTrack

text \<open>
  The module reads of a source whether the file exists and its tracks. Whatever else the
  source holds lies in the extension of the record and is not read anywhere: for one the
  rotation of the video track (the \<open>rotation-degrees\<close> entry of its format).
\<close>

record MediaFile =
  fileExists :: bool
  tracks :: "Track list"

record RotatedMediaFile = MediaFile +
  rotationDegrees :: int

datatype TrackFormat = EncoderOutputFormat | SourceAudioFormat

datatype MuxerCall =
  AddTrack TrackFormat | Start | WriteSampleData int "nat list" BufferInfo

datatype MuxerState = INITIALIZED | STARTED

text \<open>
  \<open>android.media.MediaMuxer\<close>, after its documented contract: \<open>addTrack\<close> is legal before
  \<open>start\<close> only, \<open>writeSampleData\<close> after \<open>start\<close> only and on a track that was added; any
  other call throws. \<open>muxCalls\<close> logs every call in order, \<open>muxSamples\<close> holds what was
  written. The second component of a result is \<open>None\<close> or \<open>False\<close> when the call throws.
\<close>

record MediaMuxer =
  muxState :: MuxerState
  muxTracks :: "TrackFormat list"
  muxSamples :: "(int \<times> nat list \<times> BufferInfo) list"
  muxCalls :: "MuxerCall list"

definition newMuxer :: MediaMuxer where
  "newMuxer = \<lparr>muxState = INITIALIZED, muxTracks = [], muxSamples = [], muxCalls = []\<rparr>"

definition addTrack :: "MediaMuxer \<Rightarrow> TrackFormat \<Rightarrow> MediaMuxer \<times> int option" where
  "addTrack m fmt =
     (let m1 = m\<lparr>muxCalls := muxCalls m @ [AddTrack fmt]\<rparr>
      in if muxState m = INITIALIZED
         then (m1\<lparr>muxTracks := muxTracks m @ [fmt]\<rparr>, Some (int (length (muxTracks m))))
         else (m1, None))"

definition start :: "MediaMuxer \<Rightarrow> MediaMuxer \<times> bool" where
  "start m =
     (let m1 = m\<lparr>muxCalls := muxCalls m @ [Start]\<rparr>
      in if muxState m = INITIALIZED then (m1\<lparr>muxState := STARTED\<rparr>, True)
         else (m1, False))"

definition writeSampleData ::
  "MediaMuxer \<Rightarrow> int \<Rightarrow> nat list \<Rightarrow> BufferInfo \<Rightarrow> MediaMuxer \<times> bool" where
  "writeSampleData m trackIndex byteBuf bufferInfo =
     (let m1 = m\<lparr>muxCalls := muxCalls m @ [WriteSampleData trackIndex byteBuf bufferInfo]\<rparr>
      in if muxState m = STARTED \<and> 0 \<le> trackIndex \<and> trackIndex < int (length (muxTracks m))
         then (m1\<lparr>muxSamples := muxSamples m @ [(trackIndex, byteBuf, bufferInfo)]\<rparr>, True)
         else (m1, False))"

subsection \<open>processVideoWithGL and processAudioTrack\<close>

text \<open>
  What \<open>encoder.dequeueOutputBuffer\<close> returns in a pass of the \<open>while (!encoderDone)\<close> loop:
  the format change, another negative status, or an output buffer with its \<open>BufferInfo\<close>.
  The codecs belong to the platform, so a run is driven by the list of what happens in each
  pass: \<open>Throws\<close> when a platform call of the pass throws before the encoder is drained.
  The setup of the codecs, the surfaces and the muxer before the loop is taken to succeed; a
  failure there rejects the promise as \<open>Throws\<close> in the first pass does.
\<close>

datatype EncoderStatus =
  INFO_OUTPUT_FORMAT_CHANGED | INFO_OTHER | OutputBuffer "nat list" BufferInfo

datatype Pass = Throws | Drains EncoderStatus

record LoopState =
  muxer :: MediaMuxer
  videoMuxerTrack :: int
  audioMuxerTrack :: int
  muxerStarted :: bool

datatype LoopEnd = EncoderDone | Exception | Running

definition BUFFER_FLAG_END_OF_STREAM :: int where
  "BUFFER_FLAG_END_OF_STREAM = 4"

text \<open>The \<open>when\<close> on \<open>encoderStatus\<close> at the end of a pass.\<close>

definition drainEncoder :: "bool \<Rightarrow> LoopState \<Rightarrow> EncoderStatus \<Rightarrow> LoopEnd \<times> LoopState" where
  "drainEncoder audioFormatIsNull st encoderStatus =
     (case encoderStatus of
        INFO_OUTPUT_FORMAT_CHANGED \<Rightarrow>
          (case addTrack (muxer st) EncoderOutputFormat of
             (m1, None) \<Rightarrow> (Exception, st\<lparr>muxer := m1\<rparr>)
           | (m1, Some trackIndex) \<Rightarrow>
               let st1 = st\<lparr>muxer := m1, videoMuxerTrack := trackIndex\<rparr>
               in if audioFormatIsNull \<or> audioMuxerTrack st1 \<noteq> - 1 then
                    (case start m1 of
                       (m2, True) \<Rightarrow> (Running, st1\<lparr>muxer := m2, muxerStarted := True\<rparr>)
                     | (m2, False) \<Rightarrow> (Exception, st1\<lparr>muxer := m2\<rparr>))
                  else (Running, st1))
      | INFO_OTHER \<Rightarrow> (Running, st)
      | OutputBuffer outputBuffer encoderBufferInfo \<Rightarrow>
          (case (if info_size encoderBufferInfo > 0 \<and> muxerStarted st
                 then writeSampleData (muxer st) (videoMuxerTrack st) outputBuffer encoderBufferInfo
                 else (muxer st, True)) of
             (m1, False) \<Rightarrow> (Exception, st\<lparr>muxer := m1\<rparr>)
           | (m1, True) \<Rightarrow>
               if info_flags encoderBufferInfo AND BUFFER_FLAG_END_OF_STREAM \<noteq> 0
               then (EncoderDone, st\<lparr>muxer := m1\<rparr>)
               else (Running, st\<lparr>muxer := m1\<rparr>)))"

text \<open>
  The loop over the passes. It ends when the encoder reports the end of the stream or a call
  throws; \<open>Running\<close> says that the listed passes did not end it.
\<close>

fun videoLoop :: "bool \<Rightarrow> LoopState \<Rightarrow> Pass list \<Rightarrow> LoopEnd \<times> LoopState" where
  "videoLoop audioFormatIsNull st [] = (Running, st)"
| "videoLoop audioFormatIsNull st (Throws # passes) = (Exception, st)"
| "videoLoop audioFormatIsNull st (Drains encoderStatus # passes) =
     (case drainEncoder audioFormatIsNull st encoderStatus of
        (Running, st1) \<Rightarrow> videoLoop audioFormatIsNull st1 passes
      | (EncoderDone, st1) \<Rightarrow> (EncoderDone, st1)
      | (Exception, st1) \<Rightarrow> (Exception, st1))"

text \<open>
  The \<open>while (true)\<close> loop of \<open>processAudioTrack\<close> over the samples the extractor reads from
  the audio track; it breaks when there is no sample left. The extractor still has the video
  track selected from the loop before, so after the seek it hands out the samples of that
  track as well; the loop is given the samples of the audio track alone here.
\<close>

fun copySamples :: "MediaMuxer \<Rightarrow> int \<Rightarrow> Sample list \<Rightarrow> MediaMuxer \<times> bool" where
  "copySamples m audioTrack [] = (m, True)"
| "copySamples m audioTrack (s # rest) =
     (case writeSampleData m audioTrack (sampleData s)
             \<lparr>info_offset = 0, info_size = int (length (sampleData s)),
              info_presentationTimeUs = sampleTime s, info_flags = sampleFlags s\<rparr> of
        (m1, True) \<Rightarrow> copySamples m1 audioTrack rest
      | (m1, False) \<Rightarrow> (m1, False))"

definition processAudioTrack :: "MediaMuxer \<Rightarrow> Sample list \<Rightarrow> MediaMuxer \<times> bool" where
  "processAudioTrack m samples =
     (case addTrack m SourceAudioFormat of
        (m1, None) \<Rightarrow> (m1, False)
      | (m1, Some audioTrack) \<Rightarrow> copySamples m1 audioTrack samples)"

datatype PromiseState = Pending | Fulfilled | RejectedWith string

text \<open>
  A run of an entry point: the state of the promise, how many times a \<open>MediaExtractor\<close> was
  given the source, the size the encoder was configured with, and the muxer if one was
  created.
\<close>

record Run =
  promise :: PromiseState
  dataSourcesOpened :: nat
  outputSize :: "(int \<times> int) option"
  muxerAfter :: "MediaMuxer option"

text \<open>The track loops: \<open>processVideoWithGL\<close> keeps the last match, \<open>cropVideo\<close> the first.\<close>

definition videoFormats :: "Track list \<Rightarrow> (int \<times> int) list" where
  "videoFormats ts = concat (map (\<lambda>t. case t of VideoTrack w h \<Rightarrow> [(w, h)] | _ \<Rightarrow> []) ts)"

definition audioFormats :: "Track list \<Rightarrow> Sample list list" where
  "audioFormats ts = concat (map (\<lambda>t. case t of AudioTrack samples \<Rightarrow> [samples] | _ \<Rightarrow> []) ts)"

definition lastOf :: "'a list \<Rightarrow> 'a option" where
  "lastOf xs = (if xs = [] then None else Some (last xs))"

definition processVideoWithGL ::
  "'a MediaFile_scheme \<Rightarrow> Pass list \<Rightarrow> int \<Rightarrow> CropRect option \<Rightarrow> Run" where
  "processVideoWithGL file passes rotationAngle cropRectOpt =
     (if \<not> fileExists file then
        \<lparr>promise = RejectedWith ''PROCESSING_ERROR'', dataSourcesOpened = 1,
         outputSize = None, muxerAfter = None\<rparr>
      else case lastOf (videoFormats (tracks file)) of
        None \<Rightarrow>
          \<lparr>promise = RejectedWith ''NO_VIDEO_TRACK'', dataSourcesOpened = 1,
           outputSize = None, muxerAfter = None\<rparr>
      | Some (videoWidth, videoHeight) \<Rightarrow>
         (let audioFormat = lastOf (audioFormats (tracks file));
              out = (case cropRectOpt of
                       Some r \<Rightarrow> (crop_width r, crop_height r)
                     | None \<Rightarrow>
                         if rotationAngle = 90 \<or> rotationAngle = - 90 \<or> rotationAngle = 270
                         then (videoHeight, videoWidth) else (videoWidth, videoHeight));
              st0 = \<lparr>muxer = newMuxer, videoMuxerTrack = - 1, audioMuxerTrack = - 1,
                     muxerStarted = False\<rparr>;
              run = (\<lambda>pr m. \<lparr>promise = pr, dataSourcesOpened = 1,
                              outputSize = Some out, muxerAfter = Some m\<rparr>)
          in (case videoLoop (audioFormat = None) st0 passes of
                (Running, st) \<Rightarrow> run Pending (muxer st)
              | (Exception, st) \<Rightarrow> run (RejectedWith ''PROCESSING_ERROR'') (muxer st)
              | (EncoderDone, st) \<Rightarrow>
                  (case audioFormat of
                     None \<Rightarrow> run Fulfilled (muxer st)
                   | Some samples \<Rightarrow>
                       (case processAudioTrack (muxer st) samples of
                          (m, True) \<Rightarrow> run Fulfilled m
                        | (m, False) \<Rightarrow> run (RejectedWith ''PROCESSING_ERROR'') m)))))"

subsection \<open>rotateVideo and cropVideo of the module\<close>

definition rotateVideo_kt :: "'a MediaFile_scheme \<Rightarrow> Pass list \<Rightarrow> int \<Rightarrow> Run" where
  "rotateVideo_kt file passes angle =
     (if \<not> fileExists file then
        \<lparr>promise = RejectedWith ''INVALID_PATH'', dataSourcesOpened = 0,
         outputSize = None, muxerAfter = None\<rparr>
      else processVideoWithGL file passes angle None)"

definition cropVideo_kt ::
  "(string \<Rightarrow> Double option) \<Rightarrow> 'a MediaFile_scheme \<Rightarrow> Pass list \<Rightarrow> string \<Rightarrow> string
     \<Rightarrow> Run" where
  "cropVideo_kt toDoubleOrNull file passes aspectRatio position =
     (let rejected = (\<lambda>code n. \<lparr>promise = RejectedWith code, dataSourcesOpened = n,
                               outputSize = None, muxerAfter = None\<rparr>)
      in if \<not> fileExists file then rejected ''INVALID_PATH'' 0
         else
           let parts = splitOn CHR '':'' aspectRatio
           in if length parts \<noteq> 2 then rejected ''INVALID_ASPECT_RATIO'' 0
              else case (toDoubleOrNull (parts ! 0), toDoubleOrNull (parts ! 1)) of
                (Some widthRatio, Some heightRatio) \<Rightarrow>
                  (let targetAspectRatio = ddiv widthRatio heightRatio
                   in case first (videoFormats (tracks file)) of
                        None \<Rightarrow> rejected ''NO_VIDEO_TRACK'' 1
                      | Some (videoWidth, videoHeight) \<Rightarrow>
                          let r = processVideoWithGL file passes 0
                                    (Some (calculateCropRect videoWidth videoHeight
                                             targetAspectRatio position))
                          in r\<lparr>dataSourcesOpened := dataSourcesOpened r + 1\<rparr>)
              | _ \<Rightarrow> rejected ''INVALID_ASPECT_RATIO'' 0)"

subsection \<open>Invariant of the muxer calls\<close>

text \<open>
  Over the log of muxer calls: every \<open>writeSampleData\<close> has a \<open>start\<close> before it, and every
  \<open>start\<close> has the \<open>addTrack\<close> of the encoder's output format before it. The invariant of the
  loop adds what the local variables say about the log.
\<close>

definition writesAfterStart :: "MuxerCall list \<Rightarrow> bool" where
  "writesAfterStart calls \<longleftrightarrow>
     (\<forall>pre t buf info post.
        calls = pre @ WriteSampleData t buf info # post \<longrightarrow> Start \<in> set pre)"

definition startAfterVideoTrack :: "MuxerCall list \<Rightarrow> bool" where
  "startAfterVideoTrack calls \<longleftrightarrow>
     (\<forall>pre post. calls = pre @ Start # post \<longrightarrow> AddTrack EncoderOutputFormat \<in> set pre)"

definition loopInvariant :: "bool \<Rightarrow> LoopState \<Rightarrow> bool" where
  "loopInvariant audioFormatIsNull st \<longleftrightarrow>
     writesAfterStart (muxCalls (muxer st))
     \<and> startAfterVideoTrack (muxCalls (muxer st))
     \<and> (muxerStarted st \<longrightarrow> Start \<in> set (muxCalls (muxer st)))
     \<and> (Start \<in> set (muxCalls (muxer st)) \<longrightarrow> audioFormatIsNull)
     \<and> audioMuxerTrack st = - 1
     \<and> (Start \<notin> set (muxCalls (muxer st)) \<longrightarrow>
          muxState (muxer st) = INITIALIZED \<and> muxSamples (muxer st) = [])"

section \<open>Properties\<close>

subsection \<open>Matrices of the quarter turns\<close>

lemma rotated_translation_quarter:
  "rotated (translation x y) (pi / 2) =
     \<lparr>ma = 0, mb = 1, mc = - 1, md = 0, mtx = x, mty = y\<rparr>"
  by (simp add: rotated_def rotation_def translation_def concatenating_def)

lemma rotated_translation_minus_quarter:
  "rotated (translation x y) (- (pi / 2)) =
     \<lparr>ma = 0, mb = - 1, mc = 1, md = 0, mtx = x, mty = y\<rparr>"
  by (simp add: rotated_def rotation_def translation_def concatenating_def)

lemma rotated_translation_half:
  "rotated (translation x y) pi =
     \<lparr>ma = - 1, mb = 0, mc = 0, md = - 1, mtx = x, mty = y\<rparr>"
  by (simp add: rotated_def rotation_def translation_def concatenating_def)

text \<open>
  C1. For every frame of natural size \<open>(W, H)\<close> the rotation-only calculation returns:
  for angle 90 the transform "translation by \<open>(H, 0)\<close>, then \<open>rotated\<close> by \<open>+pi/2\<close>" with render
  size \<open>(H, W)\<close>; for angle \<open>-90\<close> or 270 "translation by \<open>(0, W)\<close>, then \<open>rotated\<close> by \<open>-pi/2\<close>"
  with render size \<open>(H, W)\<close>; for angle 180 "translation by \<open>(W, H)\<close>, then \<open>rotated\<close> by \<open>pi\<close>"
  with render size \<open>(W, H)\<close>; for every other angle the identity with render size \<open>(W, H)\<close>.
\<close>

theorem rotationTransform_cases:
  "rotationTransform W H 90 =
     (rotated (translation H 0) (pi / 2), \<lparr>width = H, height = W\<rparr>)
   \<and> (angle = - 90 \<or> angle = 270 \<longrightarrow>
        rotationTransform W H angle =
          (rotated (translation 0 W) (- pi / 2), \<lparr>width = H, height = W\<rparr>))
   \<and> rotationTransform W H 180 =
       (rotated (translation W H) pi, \<lparr>width = W, height = H\<rparr>)
   \<and> (angle \<noteq> 90 \<and> angle \<noteq> - 90 \<and> angle \<noteq> 270 \<and> angle \<noteq> 180 \<longrightarrow>
        rotationTransform W H angle = (identity, \<lparr>width = W, height = H\<rparr>))"
  by (simp add: rotationTransform_def)

theorem rotationTransform_cases_witness:
  "rotationTransform 1920 1080 (- 90) =
     (\<lparr>ma = 0, mb = - 1, mc = 1, md = 0, mtx = 0, mty = 1920\<rparr>,
      \<lparr>width = 1080, height = 1920\<rparr>)
   \<and> rotationTransform 1920 1080 270 =
     (\<lparr>ma = 0, mb = - 1, mc = 1, md = 0, mtx = 0, mty = 1920\<rparr>,
      \<lparr>width = 1080, height = 1920\<rparr>)
   \<and> rotationTransform 1920 1080 45 =
     (\<lparr>ma = 1, mb = 0, mc = 0, md = 1, mtx = 0, mty = 0\<rparr>,
      \<lparr>width = 1920, height = 1080\<rparr>)"
  using rotationTransform_cases [of 1920 1080 "- 90"]
    rotationTransform_cases [of 1920 1080 270]
    rotationTransform_cases [of 1920 1080 45]
  by (simp add: rotated_translation_minus_quarter identity_def)

text \<open>
  The translation keeps the rotated frame in the positive quadrant: every point of the
  natural frame lands inside the render rectangle.
\<close>

lemma rotated_frame_in_render_rect:
  assumes "0 \<le> px" "px \<le> W" "0 \<le> py" "py \<le> H"
  shows "0 \<le> fst (applying (fst (rotationTransform W H angle)) (px, py))
       \<and> fst (applying (fst (rotationTransform W H angle)) (px, py))
            \<le> width (snd (rotationTransform W H angle))
       \<and> 0 \<le> snd (applying (fst (rotationTransform W H angle)) (px, py))
       \<and> snd (applying (fst (rotationTransform W H angle)) (px, py))
            \<le> height (snd (rotationTransform W H angle))"
  using assms
  by (simp add: rotationTransform_def applying_def rotated_translation_quarter
      rotated_translation_minus_quarter rotated_translation_half identity_def)

subsection \<open>Rounding to binary64\<close>

lemma pow2_powr: "pow2 k = 2 powr (of_int k)"
proof (cases "0 \<le> k")
  case True
  then have "2 powr (of_int k) = (2::real) powr (real (nat k))" by simp
  also have "\<dots> = 2 ^ nat k" by (simp add: powr_realpow)
  finally show ?thesis using True by (simp add: pow2_def)
next
  case False
  then have "(2::real) powr (of_int k) = 2 powr (- real (nat (- k)))" by simp
  also have "\<dots> = 1 / 2 powr (real (nat (- k)))" by (simp add: powr_minus divide_inverse)
  also have "\<dots> = 1 / 2 ^ nat (- k)" by (simp add: powr_realpow)
  finally show ?thesis using False by (simp add: pow2_def)
qed

lemma pow2_pos: "0 < pow2 k"
  by (simp add: pow2_powr)




lemma exponent_eqI:
  assumes "pow2 k \<le> \<bar>x\<bar>" "\<bar>x\<bar> < pow2 (k + 1)"
  shows "exponent x = k"
proof -
  have pos: "0 < \<bar>x\<bar>" using assms(1) pow2_pos [of k] by linarith
  have "of_int k \<le> log 2 \<bar>x\<bar>"
    using assms(1) pos by (simp add: pow2_powr le_log_iff)
  moreover have "log 2 \<bar>x\<bar> < of_int k + 1"
    using assms(2) pos by (simp add: pow2_powr log_less_iff add.commute)
  ultimately show ?thesis unfolding exponent_def by linarith
qed




lemma binary64_eqI:
  assumes "pow2 k \<le> \<bar>r\<bar>" "\<bar>r\<bar> < pow2 (k + 1)" "- 1022 \<le> k"
    and "roundHalfEven (r / pow2 (k - 52)) = m" "m \<noteq> 0"
    and "\<bar>of_int m * pow2 (k - 52)\<bar> < pow2 1024" "v = of_int m * pow2 (k - 52)"
  shows "binary64 r = Finite v"
proof -
  have e: "exponent r = k" using assms(1,2) by (rule exponent_eqI)
  have r0: "r \<noteq> 0" using assms(1) pow2_pos [of k] by auto
  have q: "max (k - 52) (- 1074) = k - 52" using assms(3) by simp
  show ?thesis using r0 assms(4-7) by (simp add: binary64_def e q Let_def)
qed

text \<open>Quotients and products of the examples below.\<close>

lemma binary64_examples:
  "binary64 1 = Finite 1"
  "binary64 3 = Finite 3"
  "binary64 1080 = Finite 1080"
  "binary64 (16 / 9) = Finite (2001599834386887 / 1125899906842624)"
  "binary64 (100 / 3) = Finite (4691249611844267 / 140737488355328)"
proof -
  show "binary64 1 = Finite 1"
    by (rule binary64_eqI [where k = 0 and m = 4503599627370496])
       (simp_all add: pow2_def roundHalfEven_def)
  show "binary64 3 = Finite 3"
    by (rule binary64_eqI [where k = 1 and m = 6755399441055744])
       (simp_all add: pow2_def roundHalfEven_def)
  show "binary64 1080 = Finite 1080"
    by (rule binary64_eqI [where k = 10 and m = 4749890231992320])
       (simp_all add: pow2_def roundHalfEven_def)
  show "binary64 (16 / 9) = Finite (2001599834386887 / 1125899906842624)"
    by (rule binary64_eqI [where k = 0 and m = 8006399337547548])
       (simp_all add: pow2_def roundHalfEven_def)
  show "binary64 (100 / 3) = Finite (4691249611844267 / 140737488355328)"
    by (rule binary64_eqI [where k = 5 and m = 4691249611844267])
       (simp_all add: pow2_def roundHalfEven_def)
qed

lemma ddiv_examples:
  "ddiv (Finite 100) (Finite 100) = Finite 1"
  "ddiv (Finite 1920) (Finite 1080) = Finite (2001599834386887 / 1125899906842624)"
  "ddiv (Finite 1280) (Finite 720) = Finite (2001599834386887 / 1125899906842624)"
  "ddiv (Finite 16) (Finite 9) = Finite (2001599834386887 / 1125899906842624)"
  "ddiv (Finite 100) (Finite 3) = Finite (4691249611844267 / 140737488355328)"
  "ddiv (Finite 1) (Finite 3) = Finite (6004799503160661 / 18014398509481984)"
  "ddiv (Finite 7) (Finite 10) = Finite (3152519739159347 / 4503599627370496)"
  "ddiv (Finite 3) (Finite 4) = Finite (3 / 4)"
  "ddiv (Finite 1) (Finite 1) = Finite 1"
  "ddiv (Finite 3) (Finite 1) = Finite 3"
proof -
  show "ddiv (Finite 100) (Finite 100) = Finite 1"
    unfolding ddiv.simps
    by (rule binary64_eqI [where k = 0 and m = 4503599627370496])
       (simp_all add: pow2_def roundHalfEven_def)
  show "ddiv (Finite 1920) (Finite 1080) = Finite (2001599834386887 / 1125899906842624)"
    unfolding ddiv.simps
    by (rule binary64_eqI [where k = 0 and m = 8006399337547548])
       (simp_all add: pow2_def roundHalfEven_def)
  show "ddiv (Finite 1280) (Finite 720) = Finite (2001599834386887 / 1125899906842624)"
    unfolding ddiv.simps
    by (rule binary64_eqI [where k = 0 and m = 8006399337547548])
       (simp_all add: pow2_def roundHalfEven_def)
  show "ddiv (Finite 16) (Finite 9) = Finite (2001599834386887 / 1125899906842624)"
    unfolding ddiv.simps
    by (rule binary64_eqI [where k = 0 and m = 8006399337547548])
       (simp_all add: pow2_def roundHalfEven_def)
  show "ddiv (Finite 100) (Finite 3) = Finite (4691249611844267 / 140737488355328)"
    unfolding ddiv.simps
    by (rule binary64_eqI [where k = 5 and m = 4691249611844267])
       (simp_all add: pow2_def roundHalfEven_def)
  show "ddiv (Finite 1) (Finite 3) = Finite (6004799503160661 / 18014398509481984)"
    unfolding ddiv.simps
    by (rule binary64_eqI [where k = "- 2" and m = 6004799503160661])
       (simp_all add: pow2_def roundHalfEven_def)
  show "ddiv (Finite 7) (Finite 10) = Finite (3152519739159347 / 4503599627370496)"
    unfolding ddiv.simps
    by (rule binary64_eqI [where k = "- 1" and m = 6305039478318694])
       (simp_all add: pow2_def roundHalfEven_def)
  show "ddiv (Finite 3) (Finite 4) = Finite (3 / 4)"
    unfolding ddiv.simps
    by (rule binary64_eqI [where k = "- 1" and m = 6755399441055744])
       (simp_all add: pow2_def roundHalfEven_def)
  show "ddiv (Finite 1) (Finite 1) = Finite 1"
    unfolding ddiv.simps
    by (rule binary64_eqI [where k = 0 and m = 4503599627370496])
       (simp_all add: pow2_def roundHalfEven_def)
  show "ddiv (Finite 3) (Finite 1) = Finite 3"
    unfolding ddiv.simps
    by (rule binary64_eqI [where k = 1 and m = 6755399441055744])
       (simp_all add: pow2_def roundHalfEven_def)
qed

lemma dmul_examples:
  "dmul (Finite 100) (Finite (6004799503160661 / 18014398509481984))
     = Finite (2345624805922133 / 70368744177664)"
  "dmul (Finite 720) (Finite (3152519739159347 / 4503599627370496))
     = Finite (8866461766385663 / 17592186044416)"
  "dmul (Finite 1080) (Finite (2001599834386887 / 1125899906842624)) = Finite 1920"
  "dmul (Finite 1080) (Finite (3 / 4)) = Finite 810"
  "dmul (Finite 1080) (Finite 1) = Finite 1080"
proof -
  show "dmul (Finite 100) (Finite (6004799503160661 / 18014398509481984))
     = Finite (2345624805922133 / 70368744177664)"
    unfolding dmul.simps
    by (rule binary64_eqI [where k = 5 and m = 4691249611844266])
       (simp_all add: pow2_def roundHalfEven_def)
  show "dmul (Finite 720) (Finite (3152519739159347 / 4503599627370496))
     = Finite (8866461766385663 / 17592186044416)"
    unfolding dmul.simps
    by (rule binary64_eqI [where k = 8 and m = 8866461766385663])
       (simp_all add: pow2_def roundHalfEven_def)
  show "dmul (Finite 1080) (Finite (2001599834386887 / 1125899906842624)) = Finite 1920"
    unfolding dmul.simps
    by (rule binary64_eqI [where k = 10 and m = 8444249301319680])
       (simp_all add: pow2_def roundHalfEven_def)
  show "dmul (Finite 1080) (Finite (3 / 4)) = Finite 810"
    unfolding dmul.simps
    by (rule binary64_eqI [where k = 9 and m = 7124835347988480])
       (simp_all add: pow2_def roundHalfEven_def)
  show "dmul (Finite 1080) (Finite 1) = Finite 1080"
    unfolding dmul.simps
    by (rule binary64_eqI [where k = 10 and m = 4749890231992320])
       (simp_all add: pow2_def roundHalfEven_def)
qed

subsection \<open>Sides of the crop rectangle of the pipeline path\<close>




subsection \<open>Crop dimensions\<close>

lemma decimalDigits_examples:
  "decimalDigits ''16'' = Some (Finite 16)" "decimalDigits ''9'' = Some (Finite 9)"
  "decimalDigits ''1'' = Some (Finite 1)" "decimalDigits ''3'' = Some (Finite 3)"
  "decimalDigits ''4'' = Some (Finite 4)" "decimalDigits ''7'' = Some (Finite 7)"
  "decimalDigits ''10'' = Some (Finite 10)"
  "decimalDigits ''0'' = Some (Zero False)" "decimalDigits '''' = None"
  "decimalDigits ''a'' = None" "decimalDigits ''b'' = None"
  by (simp_all add: decimalDigits_def ofInt_def)

lemma isRotated_identity: "\<not> isRotated identity"
  using pi_ge_two by (simp add: isRotated_def identity_def atan2_def)

lemma isRotated_quarter: "isRotated (rotation (pi / 2))"
  by (simp add: isRotated_def rotation_def atan2_def)

lemma isRotated_minus_quarter: "isRotated (rotation (- pi / 2))"
  by (simp add: isRotated_def rotation_def atan2_def)

lemma isRotated_half: "\<not> isRotated (rotation pi)"
  using pi_ge_two by (simp add: isRotated_def rotation_def atan2_def)

text \<open>
  On the matrix of a rotation by \<open>x\<close>, with \<open>-pi < x \<le> pi\<close>, \<open>atan2 b a\<close> is \<open>x\<close>: the test of
  \<open>isRotated\<close> holds exactly for the angles within 0.01 of a quarter turn.
\<close>

lemma cos_nonneg_inside: "- (pi / 2) \<le> x \<Longrightarrow> x \<le> pi / 2 \<Longrightarrow> 0 \<le> cos x"
  by (rule cos_ge_zero) simp_all

lemma cos_nonpos_outside:
  assumes "- pi < x" "x \<le> pi" "x \<le> - (pi / 2) \<or> pi / 2 \<le> x"
  shows "cos x \<le> 0"
  using assms(3)
proof
  assume "pi / 2 \<le> x"
  then have "cos x \<le> cos (pi / 2)" using assms(2) by (intro cos_monotone_0_pi_le) simp_all
  then show ?thesis by simp
next
  assume "x \<le> - (pi / 2)"
  then have "cos (- x) \<le> cos (pi / 2)" using assms(1) by (intro cos_monotone_0_pi_le) simp_all
  then show ?thesis by simp
qed

lemma sin_neg_range: "- pi < x \<Longrightarrow> x < 0 \<Longrightarrow> sin x < 0"
  using sin_gt_zero [of "- x"] by simp

lemma atan2_sin_cos:
  assumes "- pi < x" "x \<le> pi"
  shows "atan2 (sin x) (cos x) = x"
proof -
  consider "0 < cos x" | "cos x < 0" "0 \<le> sin x" | "cos x < 0" "sin x < 0" | "cos x = 0"
    by linarith
  then show ?thesis
  proof cases
    case 1
    have "- (pi / 2) < x \<and> x < pi / 2"
      using cos_nonpos_outside [OF assms] 1 by linarith
    then have "arctan (tan x) = x" by (simp add: arctan_tan)
    with 1 show ?thesis by (simp add: atan2_def tan_def)
  next
    case 2
    have "\<not> (- (pi / 2) \<le> x \<and> x \<le> pi / 2)" using cos_nonneg_inside [of x] 2(1) by linarith
    moreover have "\<not> x < 0" using sin_neg_range [OF assms(1)] 2(2) by linarith
    ultimately have r: "pi / 2 < x" by linarith
    have "tan (x - pi) = tan x" using tan_periodic_pi [of "x - pi"] by simp
    moreover have "arctan (tan (x - pi)) = x - pi"
      using r assms(2) by (intro arctan_tan) simp_all
    ultimately have "arctan (tan x) = x - pi" by simp
    with 2 show ?thesis by (simp add: atan2_def tan_def)
  next
    case 3
    have "\<not> (- (pi / 2) \<le> x \<and> x \<le> pi / 2)" using cos_nonneg_inside [of x] 3(1) by linarith
    moreover have "\<not> (0 < x \<and> x < pi)" using sin_gt_zero [of x] 3(2) by linarith
    moreover have "x \<noteq> pi" using 3(2) by auto
    ultimately have r: "x < - (pi / 2)" using assms(2) by linarith
    have "tan (x + pi) = tan x" by (rule tan_periodic_pi)
    moreover have "arctan (tan (x + pi)) = x + pi"
      using r assms(1) by (intro arctan_tan) simp_all
    ultimately have "arctan (tan x) = x + pi" by simp
    with 3 show ?thesis by (simp add: atan2_def tan_def)
  next
    case 4
    show ?thesis
    proof (cases "0 \<le> x")
      case True
      have "cos x = cos (pi / 2)" using 4 by simp
      then have e: "x = pi / 2" using True assms(2) by (rule cos_inj_pi [rotated -1]) simp_all
      have "atan2 (sin (pi / 2)) (cos (pi / 2)) = pi / 2" by (simp add: atan2_def)
      then show ?thesis unfolding e .
    next
      case False
      have "cos (- x) = cos (pi / 2)" using 4 by simp
      moreover have "0 \<le> - x" "- x \<le> pi" using False assms(1) by simp_all
      ultimately have "- x = pi / 2" by (rule cos_inj_pi [rotated -1]) simp_all
      then have e: "x = - (pi / 2)" by simp
      have "atan2 (sin (- (pi / 2))) (cos (- (pi / 2))) = - (pi / 2)" by (simp add: atan2_def)
      then show ?thesis unfolding e .
    qed
  qed
qed

lemma isRotated_rotation:
  assumes "- pi < x" "x \<le> pi"
  shows "isRotated (rotation x) \<longleftrightarrow> \<bar>x - pi / 2\<bar> < 0.01 \<or> \<bar>x + pi / 2\<bar> < 0.01"
  by (simp add: isRotated_def rotation_def atan2_sin_cos [OF assms] Let_def)

text \<open>Runs of \<open>calculateCropRect\<close> and of \<open>cropVideo\<close> of the module.\<close>

lemma sdiv_two_nonneg: "0 \<le> (k::int) \<Longrightarrow> k sdiv 2 = k div 2"
  by (cases "k = 0") (simp_all add: signed_divide_int_def)

lemma calculateCropRect_examples:
  "calculateCropRect 100 100 (Finite 3) ''center''
     = \<lparr>crop_x = 0, crop_y = 33, crop_width = 100, crop_height = 33\<rparr>"
  "calculateCropRect 100 100 (Finite (6004799503160661 / 18014398509481984)) ''center''
     = \<lparr>crop_x = 33, crop_y = 0, crop_width = 33, crop_height = 100\<rparr>"
  "calculateCropRect 1920 1080 (Finite 1) ''center''
     = \<lparr>crop_x = 420, crop_y = 0, crop_width = 1080, crop_height = 1080\<rparr>"
  "calculateCropRect 1920 1080 (Finite (3 / 4)) ''center''
     = \<lparr>crop_x = 555, crop_y = 0, crop_width = 810, crop_height = 1080\<rparr>"
  "calculateCropRect 1280 720 (Finite (3152519739159347 / 4503599627370496)) ''center''
     = \<lparr>crop_x = 388, crop_y = 0, crop_width = 503, crop_height = 720\<rparr>"
  "calculateCropRect 1920 1080 (Finite (2001599834386887 / 1125899906842624)) ''center''
     = \<lparr>crop_x = 0, crop_y = 0, crop_width = 1920, crop_height = 1080\<rparr>"
  by (simp_all add: calculateCropRect_def ofInt_def ddiv_examples dmul_examples dgt_def rank_def
      toInt_def int32_def sdiv_two_nonneg lowercased_def lowerChar_def Let_def
      del: ddiv.simps dmul.simps)

lemma calculateCropRect_infinity:
  "calculateCropRect 1920 1080 (Infinity False) ''center''
     = \<lparr>crop_x = 0, crop_y = 540, crop_width = 1920, crop_height = 0\<rparr>"
proof -
  have z: "ddiv (Finite 1920) (Infinity False) = Zero False" by (simp add: signBit_def)
  show ?thesis
    by (simp add: calculateCropRect_def ofInt_def ddiv_examples z dgt_def rank_def
        toInt_def int32_def sdiv_two_nonneg lowercased_def lowerChar_def Let_def
        del: ddiv.simps dmul.simps)
qed

lemma processVideoWithGL_outputSize:
  assumes "fileExists file" "videoFormats (tracks file) \<noteq> []"
  shows "outputSize (processVideoWithGL file passes 0 (Some r)) = Some (crop_width r, crop_height r)"
  using assms
  by (simp add: processVideoWithGL_def lastOf_def Let_def
      split: prod.splits LoopEnd.splits option.splits bool.splits)

lemma cropVideo_kt_outputSize:
  assumes "fileExists file" "splitOn CHR '':'' aspectRatio = [a, b]"
    and "toDouble a = Some w" "toDouble b = Some h"
    and "first (videoFormats (tracks file)) = Some (W, H)"
  shows "outputSize (cropVideo_kt toDouble file passes aspectRatio position)
           = Some (crop_width (calculateCropRect W H (ddiv w h) position),
                   crop_height (calculateCropRect W H (ddiv w h) position))"
proof -
  have "videoFormats (tracks file) \<noteq> []" using assms(5) by (auto simp add: first_def)
  from processVideoWithGL_outputSize [OF assms(1) this]
  show ?thesis using assms by (simp add: cropVideo_kt_def Let_def)
qed

lemma cropVideo_kt_examples:
  "outputSize (cropVideo_kt decimalDigits
       \<lparr>fileExists = True, tracks = [VideoTrack 1920 1080], rotationDegrees = 90\<rparr>
       [] ''3:4'' ''center'') = Some (810, 1080)"
  "outputSize (cropVideo_kt decimalDigits \<lparr>fileExists = True, tracks = [VideoTrack 100 100]\<rparr>
       [] ''3:1'' ''center'') = Some (100, 33)"
  "outputSize (cropVideo_kt decimalDigits \<lparr>fileExists = True, tracks = [VideoTrack 100 100]\<rparr>
       [] ''1:3'' ''center'') = Some (33, 100)"
  "outputSize (cropVideo_kt decimalDigits \<lparr>fileExists = True, tracks = [VideoTrack 1280 720]\<rparr>
       [] ''7:10'' ''center'') = Some (503, 720)"
  "outputSize (cropVideo_kt decimalDigits \<lparr>fileExists = True, tracks = [VideoTrack 1920 1080]\<rparr>
       [] ''16:9'' ''center'') = Some (1920, 1080)"
  by (simp_all add: cropVideo_kt_outputSize [where a = "''3''" and b = "''4''"]
      cropVideo_kt_outputSize [where a = "''3''" and b = "''1''"]
      cropVideo_kt_outputSize [where a = "''1''" and b = "''3''"]
      cropVideo_kt_outputSize [where a = "''7''" and b = "''10''"]
      cropVideo_kt_outputSize [where a = "''16''" and b = "''9''"]
      decimalDigits_examples videoFormats_def first_def ddiv_examples
      calculateCropRect_examples del: ddiv.simps)

lemma cropSize_quarter_example:
  "cropSize \<lparr>width = 1920, height = 1080\<rparr> (rotation (pi / 2)) (3 / 4)
     = \<lparr>width = 1440, height = 1080\<rparr>"
  using isRotated_quarter by (simp add: cropSize_def cropDisplaySize_def displaySize_def Let_def)

text \<open>
  C2 (amended). In \<open>cropVideo\<close> and \<open>cropAndRotateVideo\<close> of the composition path the display
  size is the natural size with width and height swapped exactly when \<open>isRotated\<close> holds, that
  is when \<open>atan2 b a\<close> of the preferred transform is within 0.01 of \<open>pi/2\<close> or of \<open>-pi/2\<close>; if
  the target ratio exceeds the display aspect ratio the crop keeps the display width and has
  the height \<open>displayWidth / targetAspectRatio\<close>, otherwise it keeps the display height and has
  the width \<open>displayHeight * targetAspectRatio\<close> (the divisors not being zero); the crop size
  in natural coordinates swaps the two again when rotated. On the pipeline path the rotation
  of the source does not enter the crop: \<open>calculateCropRect\<close> compares the target ratio with
  the \<open>Double\<close> quotient of \<open>videoWidth\<close> and \<open>videoHeight\<close>, keeps the full width or the full
  height, and the other side is the \<open>Double\<close> quotient \<open>videoWidth / targetAspectRatio\<close> or
  product \<open>videoHeight * targetAspectRatio\<close> cut to an \<open>Int\<close>.
\<close>

theorem crop_dimensions:
  "(isRotated t \<longleftrightarrow>
      \<bar>atan2 (mb t) (ma t) - pi / 2\<bar> < 0.01 \<or> \<bar>atan2 (mb t) (ma t) + pi / 2\<bar> < 0.01)
   \<and> (isRotated t \<longrightarrow> displaySize ns t = \<lparr>width = height ns, height = width ns\<rparr>)
   \<and> (\<not> isRotated t \<longrightarrow> displaySize ns t = \<lparr>width = width ns, height = height ns\<rparr>)
   \<and> (cropDivides ns t target
        \<and> target > width (displaySize ns t) / height (displaySize ns t) \<longrightarrow>
        cropDisplaySize ns t target =
          \<lparr>width = width (displaySize ns t), height = width (displaySize ns t) / target\<rparr>)
   \<and> (cropDivides ns t target
        \<and> \<not> target > width (displaySize ns t) / height (displaySize ns t) \<longrightarrow>
        cropDisplaySize ns t target =
          \<lparr>width = height (displaySize ns t) * target, height = height (displaySize ns t)\<rparr>)
   \<and> (isRotated t \<longrightarrow>
        cropSize ns t target =
          \<lparr>width = height (cropDisplaySize ns t target),
           height = width (cropDisplaySize ns t target)\<rparr>)
   \<and> (\<not> isRotated t \<longrightarrow>
        cropSize ns t target =
          \<lparr>width = width (cropDisplaySize ns t target),
           height = height (cropDisplaySize ns t target)\<rparr>)
   \<and> (0 < W \<and> W \<le> 2147483647 \<and> 0 < H \<and> H \<le> 2147483647 \<and> 0 < r
        \<and> dgt (Finite r) (binary64 (of_int W / of_int H)) \<longrightarrow>
        crop_width (calculateCropRect W H (Finite r) position) = W
        \<and> crop_height (calculateCropRect W H (Finite r) position)
            = toInt (binary64 (of_int W / r)))
   \<and> (0 < W \<and> W \<le> 2147483647 \<and> 0 < H \<and> H \<le> 2147483647 \<and> 0 < r
        \<and> \<not> dgt (Finite r) (binary64 (of_int W / of_int H)) \<longrightarrow>
        crop_height (calculateCropRect W H (Finite r) position) = H
        \<and> crop_width (calculateCropRect W H (Finite r) position)
            = toInt (binary64 (of_int H * r)))
   \<and> cropVideo_kt toDouble ((mediaFile :: RotatedMediaFile)\<lparr>rotationDegrees := d\<rparr>)
          passes aspectRatio position
        = cropVideo_kt toDouble mediaFile passes aspectRatio position"
proof (intro conjI)
  show "isRotated t \<longleftrightarrow>
      \<bar>atan2 (mb t) (ma t) - pi / 2\<bar> < 0.01 \<or> \<bar>atan2 (mb t) (ma t) + pi / 2\<bar> < 0.01"
    by (simp add: isRotated_def Let_def)
  show "isRotated t \<longrightarrow> displaySize ns t = \<lparr>width = height ns, height = width ns\<rparr>"
    "\<not> isRotated t \<longrightarrow> displaySize ns t = \<lparr>width = width ns, height = height ns\<rparr>"
    by (simp_all add: displaySize_def)
  show "cropDivides ns t target
        \<and> target > width (displaySize ns t) / height (displaySize ns t) \<longrightarrow>
        cropDisplaySize ns t target =
          \<lparr>width = width (displaySize ns t), height = width (displaySize ns t) / target\<rparr>"
    "cropDivides ns t target
        \<and> \<not> target > width (displaySize ns t) / height (displaySize ns t) \<longrightarrow>
        cropDisplaySize ns t target =
          \<lparr>width = height (displaySize ns t) * target, height = height (displaySize ns t)\<rparr>"
    by (simp_all add: cropDisplaySize_def Let_def)
  show "isRotated t \<longrightarrow>
        cropSize ns t target =
          \<lparr>width = height (cropDisplaySize ns t target),
           height = width (cropDisplaySize ns t target)\<rparr>"
    "\<not> isRotated t \<longrightarrow>
        cropSize ns t target =
          \<lparr>width = width (cropDisplaySize ns t target),
           height = height (cropDisplaySize ns t target)\<rparr>"
    by (simp_all add: cropSize_def Let_def)
  show "0 < W \<and> W \<le> 2147483647 \<and> 0 < H \<and> H \<le> 2147483647 \<and> 0 < r
        \<and> dgt (Finite r) (binary64 (of_int W / of_int H)) \<longrightarrow>
        crop_width (calculateCropRect W H (Finite r) position) = W
        \<and> crop_height (calculateCropRect W H (Finite r) position)
            = toInt (binary64 (of_int W / r))"
    "0 < W \<and> W \<le> 2147483647 \<and> 0 < H \<and> H \<le> 2147483647 \<and> 0 < r
        \<and> \<not> dgt (Finite r) (binary64 (of_int W / of_int H)) \<longrightarrow>
        crop_height (calculateCropRect W H (Finite r) position) = H
        \<and> crop_width (calculateCropRect W H (Finite r) position)
            = toInt (binary64 (of_int H * r))"
    by (simp_all add: calculateCropRect_def ofInt_def Let_def)
  have f: "fileExists (mediaFile\<lparr>rotationDegrees := d\<rparr>) = fileExists mediaFile"
    and t: "tracks (mediaFile\<lparr>rotationDegrees := d\<rparr>) = tracks mediaFile"
    by simp_all
  have p: "processVideoWithGL (mediaFile\<lparr>rotationDegrees := d\<rparr>) ps a c
             = processVideoWithGL mediaFile ps a c" for ps a c
    unfolding processVideoWithGL_def f t by (rule refl)
  show "cropVideo_kt toDouble (mediaFile\<lparr>rotationDegrees := d\<rparr>) passes aspectRatio position
        = cropVideo_kt toDouble mediaFile passes aspectRatio position"
    unfolding cropVideo_kt_def p f t by (rule refl)
qed

theorem crop_dimensions_witness:
  "isRotated (rotation (pi / 2))
   \<and> displaySize \<lparr>width = 1920, height = 1080\<rparr> (rotation (pi / 2)) = \<lparr>width = 1080, height = 1920\<rparr>
   \<and> cropDivides \<lparr>width = 1920, height = 1080\<rparr> (rotation (pi / 2)) (16 / 9)
   \<and> cropDisplaySize \<lparr>width = 1920, height = 1080\<rparr> (rotation (pi / 2)) (16 / 9)
        = \<lparr>width = 1080, height = 1215 / 2\<rparr>
   \<and> cropSize \<lparr>width = 1920, height = 1080\<rparr> (rotation (pi / 2)) (16 / 9)
        = \<lparr>width = 1215 / 2, height = 1080\<rparr>
   \<and> \<not> isRotated identity
   \<and> displaySize \<lparr>width = 1920, height = 1080\<rparr> identity = \<lparr>width = 1920, height = 1080\<rparr>
   \<and> cropDivides \<lparr>width = 1920, height = 1080\<rparr> identity 1
   \<and> cropDisplaySize \<lparr>width = 1920, height = 1080\<rparr> identity 1 = \<lparr>width = 1080, height = 1080\<rparr>
   \<and> cropSize \<lparr>width = 1920, height = 1080\<rparr> identity 1 = \<lparr>width = 1080, height = 1080\<rparr>
   \<and> dgt (Finite 3) (binary64 (of_int 100 / of_int 100))
   \<and> crop_width (calculateCropRect 100 100 (Finite 3) ''center'') = 100
   \<and> crop_height (calculateCropRect 100 100 (Finite 3) ''center'') = 33
   \<and> \<not> dgt (Finite 1) (binary64 (of_int 1920 / of_int 1080))
   \<and> crop_width (calculateCropRect 1920 1080 (Finite 1) ''center'') = 1080
   \<and> crop_height (calculateCropRect 1920 1080 (Finite 1) ''center'') = 1080
   \<and> cropVideo_kt decimalDigits
        (\<lparr>fileExists = True, tracks = [VideoTrack 1920 1080], rotationDegrees = 0\<rparr>
           \<lparr>rotationDegrees := 90\<rparr>) [] ''3:4'' ''center''
      = cropVideo_kt decimalDigits
          \<lparr>fileExists = True, tracks = [VideoTrack 1920 1080], rotationDegrees = 0\<rparr>
          [] ''3:4'' ''center''"
  using crop_dimensions
      [where t = "rotation (pi / 2)" and ns = "\<lparr>width = 1920, height = 1080\<rparr>"
         and target = "16 / 9" and W = 100 and H = 100 and r = 3 and position = "''center''"
         and toDouble = decimalDigits
         and mediaFile = "\<lparr>fileExists = True, tracks = [VideoTrack 1920 1080],
                            rotationDegrees = 0\<rparr>"
         and d = 90 and passes = "[]" and aspectRatio = "''3:4''"]
    crop_dimensions
      [where t = identity and ns = "\<lparr>width = 1920, height = 1080\<rparr>"
         and target = 1 and W = 1920 and H = 1080 and r = 1 and position = "''center''"
         and toDouble = decimalDigits
         and mediaFile = "\<lparr>fileExists = True, tracks = [VideoTrack 1920 1080],
                            rotationDegrees = 0\<rparr>"
         and d = 90 and passes = "[]" and aspectRatio = "''3:4''"]
    isRotated_quarter isRotated_identity
  by (simp add: cropDivides_def binary64_examples dgt_def rank_def toInt_def)

text \<open>
  As first stated, C2 has every crop operation swap the sides for a source turned by a
  quarter and gives the shrunk side as the quotient itself. On the pipeline path a
  1920 x 1080 source with the rotation 90 and the ratio \<open>3:4\<close> is cropped to 810 x 1080,
  where the rule of C2 gives 1440 x 1080 in natural coordinates; and a 100 x 100 source with
  the ratio \<open>3:1\<close> gets the height 33, not 100 / 3.
\<close>

theorem calculateCropRect_truncates_counterexample:
  "outputSize (cropVideo_kt decimalDigits
       \<lparr>fileExists = True, tracks = [VideoTrack 1920 1080], rotationDegrees = 90\<rparr>
       [] ''3:4'' ''center'') = Some (810, 1080)
   \<and> cropSize \<lparr>width = 1920, height = 1080\<rparr> (rotation (pi / 2)) (3 / 4)
        = \<lparr>width = 1440, height = 1080\<rparr>
   \<and> outputSize (cropVideo_kt decimalDigits
         \<lparr>fileExists = True, tracks = [VideoTrack 100 100]\<rparr> [] ''3:1'' ''center'')
       = Some (100, 33)
   \<and> real_of_int 33 \<noteq> 100 / 3"
  by (simp add: cropVideo_kt_examples cropSize_quarter_example)

subsection \<open>The crop rectangle lies in the frame\<close>













subsection \<open>Anchors\<close>

lemma cropOrigin_anchor:
  "lowercased position = ''top-left'' \<Longrightarrow> cropOrigin position ns cw ch = (0, 0)"
  "lowercased position = ''bottom-right'' \<Longrightarrow>
     cropOrigin position ns cw ch = (width ns - cw, height ns - ch)"
  "lowercased position = ''center'' \<Longrightarrow>
     cropOrigin position ns cw ch = ((width ns - cw) / 2, (height ns - ch) / 2)"
  by (simp_all add: cropOrigin_def Let_def)

lemma calculateCropRect_anchor:
  "lowercased position = ''top-left'' \<Longrightarrow>
     crop_x (calculateCropRect W H target position) = 0
     \<and> crop_y (calculateCropRect W H target position) = 0"
  "lowercased position = ''bottom-right'' \<Longrightarrow>
     crop_x (calculateCropRect W H target position)
       = int32 (W - crop_width (calculateCropRect W H target position))
     \<and> crop_y (calculateCropRect W H target position)
       = int32 (H - crop_height (calculateCropRect W H target position))"
  "lowercased position = ''center'' \<Longrightarrow>
     crop_x (calculateCropRect W H target position)
       = int32 (W - crop_width (calculateCropRect W H target position)) sdiv 2
     \<and> crop_y (calculateCropRect W H target position)
       = int32 (H - crop_height (calculateCropRect W H target position)) sdiv 2"
  by (simp_all add: calculateCropRect_def Let_def)

lemma cropAndRotateOrigin_ignores_corners:
  "lowercased position \<noteq> ''top'' \<Longrightarrow> lowercased position \<noteq> ''bottom'' \<Longrightarrow>
     cropAndRotateOrigin position ns cw ch = ((width ns - cw) / 2, (height ns - ch) / 2)"
  by (simp add: cropAndRotateOrigin_def Let_def)

lemma cropSize_example:
  "cropSize \<lparr>width = 1920, height = 1080\<rparr> identity 1 = \<lparr>width = 1080, height = 1080\<rparr>"
  using isRotated_identity by (simp add: cropSize_def cropDisplaySize_def displaySize_def Let_def)

text \<open>
  C4. In every crop and crop-and-rotate operation the anchor \<open>top-left\<close> is to give the crop
  origin \<open>(0, 0)\<close>, \<open>bottom-right\<close> the origin
  \<open>(naturalWidth - cropWidth, naturalHeight - cropHeight)\<close> and \<open>center\<close> the halves of these.
  \<open>cropVideo\<close> and \<open>calculateCropRect\<close> do so (\<open>cropOrigin_anchor\<close>,
  \<open>calculateCropRect_anchor\<close>). The switch of \<open>cropAndRotateVideo\<close> has the cases \<open>center\<close>,
  \<open>top\<close> and \<open>bottom\<close> only, so every other anchor is centred: for a 1920 x 1080 frame and
  the ratio 1 both \<open>top-left\<close> and \<open>bottom-right\<close> give the origin \<open>(420, 0)\<close>, where
  \<open>cropVideo\<close> gives \<open>(0, 0)\<close> and \<open>(840, 0)\<close>.
\<close>

theorem cropAndRotate_top_left_is_centred:
  "cropAndRotateRect \<lparr>width = 1920, height = 1080\<rparr> identity 1 ''top-left''
     = \<lparr>origin_x = 420, origin_y = 0, size_width = 1080, size_height = 1080\<rparr>
   \<and> cropAndRotateRect \<lparr>width = 1920, height = 1080\<rparr> identity 1 ''bottom-right''
     = \<lparr>origin_x = 420, origin_y = 0, size_width = 1080, size_height = 1080\<rparr>
   \<and> cropRect \<lparr>width = 1920, height = 1080\<rparr> identity 1 ''top-left''
     = \<lparr>origin_x = 0, origin_y = 0, size_width = 1080, size_height = 1080\<rparr>
   \<and> cropRect \<lparr>width = 1920, height = 1080\<rparr> identity 1 ''bottom-right''
     = \<lparr>origin_x = 840, origin_y = 0, size_width = 1080, size_height = 1080\<rparr>"
  by (simp add: cropAndRotateRect_def cropRect_def cropAndRotateOrigin_def cropOrigin_def
      cropSize_example lowercased_def lowerChar_def Let_def)

subsection \<open>Crop, then rotate\<close>












subsection \<open>Rejection of malformed aspect ratios\<close>

lemma parseAspectRatio_None_iff:
  "parseAspectRatio toDouble aspectRatio = None \<longleftrightarrow>
     (length (split_separator aspectRatio CHR '':'') \<noteq> 2
      \<or> toDouble (split_separator aspectRatio CHR '':'' ! 0) = None
      \<or> toDouble (split_separator aspectRatio CHR '':'' ! 1) = None)"
  by (auto simp add: parseAspectRatio_def Let_def split: option.splits)

lemma export_codes:
  "export p vc \<noteq> Rejected ''INVALID_ASPECT_RATIO''"
  "exportNonFinite p \<noteq> Rejected ''INVALID_ASPECT_RATIO''"
  by (simp_all add: export_def exportNonFinite_def split: ExportStatus.splits)

lemma cropVideoRun_parsed:
  assumes "parseAspectRatio toDouble aspectRatio = Some (widthRatio, heightRatio)"
  shows "fst (cropVideoRun toDouble p asset aspectRatio position)
           \<noteq> Rejected ''INVALID_ASPECT_RATIO''"
proof (cases "urlValid p")
  case False
  then show ?thesis by (simp add: cropVideoRun_def)
next
  case u: True
  show ?thesis
  proof (cases "first (videoTracks asset)")
    case None
    then show ?thesis using u by (simp add: cropVideoRun_def)
  next
    case (Some videoTrack)
    show ?thesis
    proof (cases "addTrackOk p \<and> insertTimeRangeOk p")
      case False
      then show ?thesis using u Some assms by (auto simp add: cropVideoRun_def)
    next
      case True
      show ?thesis
      proof (cases "finiteValue widthRatio")
        case None
        then show ?thesis using u Some assms True by (simp add: cropVideoRun_def export_codes)
      next
        case w: (Some w)
        show ?thesis
        proof (cases "finiteValue heightRatio")
          case None
          then show ?thesis
            using u Some assms True w by (simp add: cropVideoRun_def export_codes)
        next
          case h: (Some h)
          show ?thesis
            using u Some assms True w h
            by (simp add: cropVideoRun_def export_codes Let_def)
        qed
      qed
    qed
  qed
qed

lemma processVideoWithGL_codes:
  "promise (processVideoWithGL file passes angle c) \<noteq> RejectedWith ''INVALID_ASPECT_RATIO''"
  by (simp add: processVideoWithGL_def Let_def
      split: prod.splits LoopEnd.splits option.splits bool.splits)

lemma cropVideo_kt_parsed:
  assumes "length (splitOn CHR '':'' aspectRatio) = 2"
    and "toDouble (splitOn CHR '':'' aspectRatio ! 0) = Some widthRatio"
    and "toDouble (splitOn CHR '':'' aspectRatio ! 1) = Some heightRatio"
  shows "promise (cropVideo_kt toDouble file passes aspectRatio position)
           \<noteq> RejectedWith ''INVALID_ASPECT_RATIO''"
proof (cases "fileExists file")
  case False
  then show ?thesis by (simp add: cropVideo_kt_def)
next
  case True
  show ?thesis
  proof (cases "first (videoFormats (tracks file))")
    case None
    then show ?thesis using True assms by (simp add: cropVideo_kt_def Let_def)
  next
    case (Some wh)
    then show ?thesis
      using True assms
      by (cases wh) (simp add: cropVideo_kt_def Let_def processVideoWithGL_codes)
  qed
qed

lemma cropVideoRun_examples:
  "cropVideoRun decimalDigits
      \<lparr>urlValid = True, addTrackOk = True, insertTimeRangeOk = True, exportSessionOk = True,
       exportStatus = Completed\<rparr>
      \<lparr>videoTracks = [\<lparr>naturalSize = \<lparr>width = 1920, height = 1080\<rparr>,
                       preferredTransform = identity\<rparr>], audioTracks = 1\<rparr>
      ''16:9:'' ''center''
    = (Resolved
         \<lparr>layerTransform = \<lparr>ma = 1, mb = 0, mc = 0, md = 1, mtx = 0, mty = 0\<rparr>,
          cropRectangle = None,
          renderSize = \<lparr>width = 1920, height = 1080\<rparr>\<rparr>,
       [AssetCreated, VideoTracksRead, CompositionCreated, CompositionTrackAdded,
        TimeRangeInserted, AudioTracksRead, VideoCompositionCreated, ExportSessionCreated,
        ExportStarted])"
  "cropVideoRun decimalDigits
      \<lparr>urlValid = True, addTrackOk = True, insertTimeRangeOk = True, exportSessionOk = True,
       exportStatus = Completed\<rparr>
      \<lparr>videoTracks = [\<lparr>naturalSize = \<lparr>width = 1920, height = 1080\<rparr>,
                       preferredTransform = identity\<rparr>], audioTracks = 1\<rparr>
      ''16::9'' ''center''
    = (Resolved
         \<lparr>layerTransform = \<lparr>ma = 1, mb = 0, mc = 0, md = 1, mtx = 0, mty = 0\<rparr>,
          cropRectangle = None,
          renderSize = \<lparr>width = 1920, height = 1080\<rparr>\<rparr>,
       [AssetCreated, VideoTracksRead, CompositionCreated, CompositionTrackAdded,
        TimeRangeInserted, AudioTracksRead, VideoCompositionCreated, ExportSessionCreated,
        ExportStarted])"
proof -
  have parse: "parseAspectRatio decimalDigits ''16:9:'' = Some (Finite 16, Finite 9)"
    "parseAspectRatio decimalDigits ''16::9'' = Some (Finite 16, Finite 9)"
    by (simp_all add: parseAspectRatio_def split_separator_def decimalDigits_examples)
  have cd: "cropDisplaySize \<lparr>width = 1920, height = 1080\<rparr> identity (16 / 9)
               = \<lparr>width = 1920, height = 1080\<rparr>"
    and cs: "cropSize \<lparr>width = 1920, height = 1080\<rparr> identity (16 / 9)
               = \<lparr>width = 1920, height = 1080\<rparr>"
    and dv: "cropDivides \<lparr>width = 1920, height = 1080\<rparr> identity (16 / 9)"
    using isRotated_identity
    by (simp_all add: cropSize_def cropDisplaySize_def displaySize_def cropDivides_def Let_def)
  have ft: "cropFinalTransform \<lparr>width = 1920, height = 1080\<rparr> identity (16 / 9) ''center''
              = \<lparr>ma = 1, mb = 0, mc = 0, md = 1, mtx = 0, mty = 0\<rparr>"
    by (simp add: cropFinalTransform_def cropRect_def cs [unfolded identity_def]
        cd [unfolded identity_def] cropOrigin_def lowercased_def
        lowerChar_def scaledBy_def translatedBy_def concatenating_def identity_def
        translation_def scale_def Let_def)
  show "cropVideoRun decimalDigits
      \<lparr>urlValid = True, addTrackOk = True, insertTimeRangeOk = True, exportSessionOk = True,
       exportStatus = Completed\<rparr>
      \<lparr>videoTracks = [\<lparr>naturalSize = \<lparr>width = 1920, height = 1080\<rparr>,
                       preferredTransform = identity\<rparr>], audioTracks = 1\<rparr>
      ''16:9:'' ''center''
    = (Resolved
         \<lparr>layerTransform = \<lparr>ma = 1, mb = 0, mc = 0, md = 1, mtx = 0, mty = 0\<rparr>,
          cropRectangle = None,
          renderSize = \<lparr>width = 1920, height = 1080\<rparr>\<rparr>,
       [AssetCreated, VideoTracksRead, CompositionCreated, CompositionTrackAdded,
        TimeRangeInserted, AudioTracksRead, VideoCompositionCreated, ExportSessionCreated,
        ExportStarted])"
    by (simp add: cropVideoRun_def first_def parse finiteValue_def cd cs dv ft export_def
        exportEffects_def Let_def)
  show "cropVideoRun decimalDigits
      \<lparr>urlValid = True, addTrackOk = True, insertTimeRangeOk = True, exportSessionOk = True,
       exportStatus = Completed\<rparr>
      \<lparr>videoTracks = [\<lparr>naturalSize = \<lparr>width = 1920, height = 1080\<rparr>,
                       preferredTransform = identity\<rparr>], audioTracks = 1\<rparr>
      ''16::9'' ''center''
    = (Resolved
         \<lparr>layerTransform = \<lparr>ma = 1, mb = 0, mc = 0, md = 1, mtx = 0, mty = 0\<rparr>,
          cropRectangle = None,
          renderSize = \<lparr>width = 1920, height = 1080\<rparr>\<rparr>,
       [AssetCreated, VideoTracksRead, CompositionCreated, CompositionTrackAdded,
        TimeRangeInserted, AudioTracksRead, VideoCompositionCreated, ExportSessionCreated,
        ExportStarted])"
    by (simp add: cropVideoRun_def first_def parse finiteValue_def cd cs dv ft export_def
        exportEffects_def Let_def)
qed

text \<open>
  C7 (amended). \<open>cropVideo\<close> rejects with \<open>INVALID_ASPECT_RATIO\<close> exactly the aspect-ratio
  strings that do not split at \<open>:\<close> into two parts that both parse as numbers, once the
  earlier checks have passed. The split differs: the composition path drops the empty parts
  before it counts them, so \<open>16:9:\<close> and \<open>16::9\<close> are accepted there; the pipeline path
  keeps them, so these are rejected. The sign of the numbers is not looked at on either
  path. On the composition path the earlier checks are that the URL is valid and that the
  asset has a video track: the asset has been created and its video tracks read when the
  string is rejected, and nothing else, so no composition and no transform. On the pipeline
  path the earlier check is that the input file exists: the rejection comes before any
  extractor is given the source, and there is no crop rectangle, no output size and no
  muxer.
\<close>

theorem malformed_aspect_ratio_rejected:
  "(urlValid p \<and> first (videoTracks asset) \<noteq> None \<longrightarrow>
      (cropVideo toDouble p asset aspectRatio position = Rejected ''INVALID_ASPECT_RATIO''
       \<longleftrightarrow> (length (split_separator aspectRatio CHR '':'') \<noteq> 2
            \<or> toDouble (split_separator aspectRatio CHR '':'' ! 0) = None
            \<or> toDouble (split_separator aspectRatio CHR '':'' ! 1) = None)))
   \<and> (urlValid p \<and> first (videoTracks asset) \<noteq> None
        \<and> cropVideo toDouble p asset aspectRatio position = Rejected ''INVALID_ASPECT_RATIO''
        \<longrightarrow>
        snd (cropVideoRun toDouble p asset aspectRatio position)
          = [AssetCreated, VideoTracksRead])
   \<and> (fileExists mediaFile \<longrightarrow>
        (promise (cropVideo_kt toDouble mediaFile passes aspectRatio position)
           = RejectedWith ''INVALID_ASPECT_RATIO''
         \<longleftrightarrow> (length (splitOn CHR '':'' aspectRatio) \<noteq> 2
              \<or> toDouble (splitOn CHR '':'' aspectRatio ! 0) = None
              \<or> toDouble (splitOn CHR '':'' aspectRatio ! 1) = None)))
   \<and> (fileExists mediaFile
        \<and> promise (cropVideo_kt toDouble mediaFile passes aspectRatio position)
             = RejectedWith ''INVALID_ASPECT_RATIO''
        \<longrightarrow>
        cropVideo_kt toDouble mediaFile passes aspectRatio position =
          \<lparr>promise = RejectedWith ''INVALID_ASPECT_RATIO'', dataSourcesOpened = 0,
           outputSize = None, muxerAfter = None\<rparr>)"
proof -
  let ?bad = "length (split_separator aspectRatio CHR '':'') \<noteq> 2
            \<or> toDouble (split_separator aspectRatio CHR '':'' ! 0) = None
            \<or> toDouble (split_separator aspectRatio CHR '':'' ! 1) = None"
  let ?bad_kt = "length (splitOn CHR '':'' aspectRatio) \<noteq> 2
              \<or> toDouble (splitOn CHR '':'' aspectRatio ! 0) = None
              \<or> toDouble (splitOn CHR '':'' aspectRatio ! 1) = None"
  have s1: "cropVideoRun toDouble p asset aspectRatio position
              = (Rejected ''INVALID_ASPECT_RATIO'', [AssetCreated, VideoTracksRead])"
    if "urlValid p" "first (videoTracks asset) \<noteq> None" ?bad
  proof -
    have "parseAspectRatio toDouble aspectRatio = None"
      unfolding parseAspectRatio_None_iff by (rule that(3))
    with that(1,2) show ?thesis by (auto simp add: cropVideoRun_def)
  qed
  have s2: ?bad
    if "cropVideo toDouble p asset aspectRatio position = Rejected ''INVALID_ASPECT_RATIO''"
  proof (rule ccontr)
    assume nb: "\<not> ?bad"
    have "parseAspectRatio toDouble aspectRatio \<noteq> None"
      unfolding parseAspectRatio_None_iff by (rule nb)
    then obtain w h where "parseAspectRatio toDouble aspectRatio = Some (w, h)" by auto
    from cropVideoRun_parsed [OF this, of p asset position] that show False
      by (simp add: cropVideo_def)
  qed
  have k1: "cropVideo_kt toDouble mediaFile passes aspectRatio position =
          \<lparr>promise = RejectedWith ''INVALID_ASPECT_RATIO'', dataSourcesOpened = 0,
           outputSize = None, muxerAfter = None\<rparr>"
    if "fileExists mediaFile" ?bad_kt
    using that by (auto simp add: cropVideo_kt_def Let_def split: option.splits)
  have k2: ?bad_kt
    if "promise (cropVideo_kt toDouble mediaFile passes aspectRatio position)
          = RejectedWith ''INVALID_ASPECT_RATIO''"
  proof (rule ccontr)
    assume "\<not> ?bad_kt"
    then obtain w h where "length (splitOn CHR '':'' aspectRatio) = 2"
      "toDouble (splitOn CHR '':'' aspectRatio ! 0) = Some w"
      "toDouble (splitOn CHR '':'' aspectRatio ! 1) = Some h" by auto
    from cropVideo_kt_parsed [OF this, of mediaFile passes position] that show False
      by simp
  qed
  show ?thesis
  proof (intro conjI impI iffI)
    assume "urlValid p \<and> first (videoTracks asset) \<noteq> None"
      and b: "cropVideo toDouble p asset aspectRatio position
                = Rejected ''INVALID_ASPECT_RATIO''"
    show ?bad by (rule s2 [OF b])
  next
    assume a: "urlValid p \<and> first (videoTracks asset) \<noteq> None" and b: ?bad
    from a have "urlValid p" "first (videoTracks asset) \<noteq> None" by simp_all
    from s1 [OF this b]
    show "cropVideo toDouble p asset aspectRatio position
                 = Rejected ''INVALID_ASPECT_RATIO''"
      by (simp add: cropVideo_def)
  next
    assume a: "urlValid p \<and> first (videoTracks asset) \<noteq> None
        \<and> cropVideo toDouble p asset aspectRatio position = Rejected ''INVALID_ASPECT_RATIO''"
    then have b: "cropVideo toDouble p asset aspectRatio position
                    = Rejected ''INVALID_ASPECT_RATIO''" by simp
    from a have "urlValid p" "first (videoTracks asset) \<noteq> None" by simp_all
    from s1 [OF this s2 [OF b]]
    show "snd (cropVideoRun toDouble p asset aspectRatio position)
          = [AssetCreated, VideoTracksRead]" by simp
  next
    assume "fileExists mediaFile"
      and b: "promise (cropVideo_kt toDouble mediaFile passes aspectRatio position)
             = RejectedWith ''INVALID_ASPECT_RATIO''"
    show ?bad_kt by (rule k2 [OF b])
  next
    assume a: "fileExists mediaFile" and b: ?bad_kt
    from k1 [OF a b]
    show "promise (cropVideo_kt toDouble mediaFile passes aspectRatio position)
           = RejectedWith ''INVALID_ASPECT_RATIO''"
      by simp
  next
    assume a: "fileExists mediaFile
        \<and> promise (cropVideo_kt toDouble mediaFile passes aspectRatio position)
             = RejectedWith ''INVALID_ASPECT_RATIO''"
    then have b: "promise (cropVideo_kt toDouble mediaFile passes aspectRatio position)
             = RejectedWith ''INVALID_ASPECT_RATIO''" and c: "fileExists mediaFile" by simp_all
    show "cropVideo_kt toDouble mediaFile passes aspectRatio position =
          \<lparr>promise = RejectedWith ''INVALID_ASPECT_RATIO'', dataSourcesOpened = 0,
           outputSize = None, muxerAfter = None\<rparr>" by (rule k1 [OF c k2 [OF b]])
  qed
qed

theorem malformed_aspect_ratio_rejected_witness:
  "cropVideo decimalDigits
      \<lparr>urlValid = True, addTrackOk = True, insertTimeRangeOk = True, exportSessionOk = True,
       exportStatus = Completed\<rparr>
      \<lparr>videoTracks = [\<lparr>naturalSize = \<lparr>width = 1920, height = 1080\<rparr>,
                       preferredTransform = identity\<rparr>], audioTracks = 1\<rparr>
      ''16:9:1'' ''center'' = Rejected ''INVALID_ASPECT_RATIO''
   \<and> snd (cropVideoRun decimalDigits
      \<lparr>urlValid = True, addTrackOk = True, insertTimeRangeOk = True, exportSessionOk = True,
       exportStatus = Completed\<rparr>
      \<lparr>videoTracks = [\<lparr>naturalSize = \<lparr>width = 1920, height = 1080\<rparr>,
                       preferredTransform = identity\<rparr>], audioTracks = 1\<rparr>
      ''16:9:1'' ''center'') = [AssetCreated, VideoTracksRead]
   \<and> cropVideo decimalDigits
      \<lparr>urlValid = True, addTrackOk = True, insertTimeRangeOk = True, exportSessionOk = True,
       exportStatus = Completed\<rparr>
      \<lparr>videoTracks = [\<lparr>naturalSize = \<lparr>width = 1920, height = 1080\<rparr>,
                       preferredTransform = identity\<rparr>], audioTracks = 1\<rparr>
      ''a:b'' ''center'' = Rejected ''INVALID_ASPECT_RATIO''
   \<and> cropVideo decimalDigits
      \<lparr>urlValid = True, addTrackOk = True, insertTimeRangeOk = True, exportSessionOk = True,
       exportStatus = Completed\<rparr>
      \<lparr>videoTracks = [\<lparr>naturalSize = \<lparr>width = 1920, height = 1080\<rparr>,
                       preferredTransform = identity\<rparr>], audioTracks = 1\<rparr>
      ''16'' ''center'' = Rejected ''INVALID_ASPECT_RATIO''
   \<and> cropVideo_kt decimalDigits \<lparr>fileExists = True, tracks = [VideoTrack 1920 1080]\<rparr>
        [] ''16'' ''center'' =
          \<lparr>promise = RejectedWith ''INVALID_ASPECT_RATIO'', dataSourcesOpened = 0,
           outputSize = None, muxerAfter = None\<rparr>
   \<and> cropVideo_kt decimalDigits \<lparr>fileExists = True, tracks = [VideoTrack 1920 1080]\<rparr>
        [] ''a:b'' ''center'' =
          \<lparr>promise = RejectedWith ''INVALID_ASPECT_RATIO'', dataSourcesOpened = 0,
           outputSize = None, muxerAfter = None\<rparr>
   \<and> cropVideo_kt decimalDigits \<lparr>fileExists = True, tracks = [VideoTrack 1920 1080]\<rparr>
        [] ''16:9:1'' ''center'' =
          \<lparr>promise = RejectedWith ''INVALID_ASPECT_RATIO'', dataSourcesOpened = 0,
           outputSize = None, muxerAfter = None\<rparr>
   \<and> cropVideo_kt decimalDigits \<lparr>fileExists = True, tracks = [VideoTrack 1920 1080]\<rparr>
        [] ''16:9:'' ''center'' =
          \<lparr>promise = RejectedWith ''INVALID_ASPECT_RATIO'', dataSourcesOpened = 0,
           outputSize = None, muxerAfter = None\<rparr>"
  using malformed_aspect_ratio_rejected
      [where toDouble = decimalDigits
         and p = "\<lparr>urlValid = True, addTrackOk = True, insertTimeRangeOk = True, exportSessionOk = True,
       exportStatus = Completed\<rparr>"
         and asset = "\<lparr>videoTracks = [\<lparr>naturalSize = \<lparr>width = 1920, height = 1080\<rparr>,
                       preferredTransform = identity\<rparr>], audioTracks = 1\<rparr>"
         and aspectRatio = "''16:9:1''" and position = "''center''"
         and mediaFile = "\<lparr>fileExists = True, tracks = [VideoTrack 1920 1080]\<rparr>" and passes = "[]"]
    malformed_aspect_ratio_rejected
      [where toDouble = decimalDigits
         and p = "\<lparr>urlValid = True, addTrackOk = True, insertTimeRangeOk = True, exportSessionOk = True,
       exportStatus = Completed\<rparr>"
         and asset = "\<lparr>videoTracks = [\<lparr>naturalSize = \<lparr>width = 1920, height = 1080\<rparr>,
                       preferredTransform = identity\<rparr>], audioTracks = 1\<rparr>"
         and aspectRatio = "''a:b''" and position = "''center''"
         and mediaFile = "\<lparr>fileExists = True, tracks = [VideoTrack 1920 1080]\<rparr>" and passes = "[]"]
    malformed_aspect_ratio_rejected
      [where toDouble = decimalDigits
         and p = "\<lparr>urlValid = True, addTrackOk = True, insertTimeRangeOk = True, exportSessionOk = True,
       exportStatus = Completed\<rparr>"
         and asset = "\<lparr>videoTracks = [\<lparr>naturalSize = \<lparr>width = 1920, height = 1080\<rparr>,
                       preferredTransform = identity\<rparr>], audioTracks = 1\<rparr>"
         and aspectRatio = "''16''" and position = "''center''"
         and mediaFile = "\<lparr>fileExists = True, tracks = [VideoTrack 1920 1080]\<rparr>" and passes = "[]"]
    malformed_aspect_ratio_rejected
      [where toDouble = decimalDigits
         and p = "\<lparr>urlValid = True, addTrackOk = True, insertTimeRangeOk = True, exportSessionOk = True,
       exportStatus = Completed\<rparr>"
         and asset = "\<lparr>videoTracks = [\<lparr>naturalSize = \<lparr>width = 1920, height = 1080\<rparr>,
                       preferredTransform = identity\<rparr>], audioTracks = 1\<rparr>"
         and aspectRatio = "''16:9:''" and position = "''center''"
         and mediaFile = "\<lparr>fileExists = True, tracks = [VideoTrack 1920 1080]\<rparr>" and passes = "[]"]
  by (simp add: split_separator_def decimalDigits_examples decimalDigits_def first_def)

text \<open>
  As first stated, C7 has every string that is not two positive numbers around one
  delimiter rejected with the aspect-ratio error before a track is opened. On the
  composition path a source without a video track and the string \<open>16\<close> is rejected with
  \<open>NO_VIDEO_TRACK\<close>, and with a video track the tracks have been read when \<open>16\<close> is rejected:
  the tracks are asked for first. On the composition path \<open>16:9:\<close> is not rejected: the
  export is started with the ratio 16 / 9. On the pipeline path \<open>0:9\<close> is not rejected as
  an aspect ratio: the source is opened twice and the crop rectangle of width 0 becomes the
  output size.
\<close>

theorem malformed_aspect_ratio_counterexample:
  "cropVideo decimalDigits
      \<lparr>urlValid = True, addTrackOk = True, insertTimeRangeOk = True, exportSessionOk = True,
       exportStatus = Completed\<rparr>
      \<lparr>videoTracks = [], audioTracks = 1\<rparr> ''16'' ''center'' = Rejected ''NO_VIDEO_TRACK''
   \<and> cropVideoRun decimalDigits
      \<lparr>urlValid = True, addTrackOk = True, insertTimeRangeOk = True, exportSessionOk = True,
       exportStatus = Completed\<rparr>
      \<lparr>videoTracks = [\<lparr>naturalSize = \<lparr>width = 1920, height = 1080\<rparr>,
                       preferredTransform = identity\<rparr>], audioTracks = 1\<rparr>
      ''16'' ''center''
     = (Rejected ''INVALID_ASPECT_RATIO'', [AssetCreated, VideoTracksRead])
   \<and> cropVideoRun decimalDigits
      \<lparr>urlValid = True, addTrackOk = True, insertTimeRangeOk = True, exportSessionOk = True,
       exportStatus = Completed\<rparr>
      \<lparr>videoTracks = [\<lparr>naturalSize = \<lparr>width = 1920, height = 1080\<rparr>,
                       preferredTransform = identity\<rparr>], audioTracks = 1\<rparr>
      ''16:9:'' ''center''
    = (Resolved
         \<lparr>layerTransform = \<lparr>ma = 1, mb = 0, mc = 0, md = 1, mtx = 0, mty = 0\<rparr>,
          cropRectangle = None,
          renderSize = \<lparr>width = 1920, height = 1080\<rparr>\<rparr>,
       [AssetCreated, VideoTracksRead, CompositionCreated, CompositionTrackAdded,
        TimeRangeInserted, AudioTracksRead, VideoCompositionCreated, ExportSessionCreated,
        ExportStarted])
   \<and> promise (cropVideo_kt decimalDigits
                     \<lparr>fileExists = True, tracks = [VideoTrack 1920 1080]\<rparr>
             [Throws] ''0:9'' ''center'')
       = RejectedWith ''PROCESSING_ERROR''
   \<and> dataSourcesOpened
        (cropVideo_kt decimalDigits \<lparr>fileExists = True, tracks = [VideoTrack 1920 1080]\<rparr>
           [Throws] ''0:9'' ''center'') = 2
   \<and> outputSize
        (cropVideo_kt decimalDigits \<lparr>fileExists = True, tracks = [VideoTrack 1920 1080]\<rparr>
           [Throws] ''0:9'' ''center'') = Some (0, 1080)"
proof -
  have z: "ddiv (Zero False) (Finite 9) = Zero False"
    "dmul (Finite 1080) (Zero False) = Zero False"
    by (simp_all add: signBit_def)
  have k: "cropVideo_kt decimalDigits \<lparr>fileExists = True, tracks = [VideoTrack 1920 1080]\<rparr>
             [Throws] ''0:9'' ''center''
           = \<lparr>promise = RejectedWith ''PROCESSING_ERROR'', dataSourcesOpened = 2,
              outputSize = Some (0, 1080),
              muxerAfter = Some newMuxer\<rparr>"
    by (simp add: cropVideo_kt_def first_def decimalDigits_examples videoFormats_def
        processVideoWithGL_def lastOf_def audioFormats_def calculateCropRect_def ofInt_def
        z ddiv_examples dgt_def rank_def toInt_def Let_def del: ddiv.simps dmul.simps)
  have c1: "cropVideo decimalDigits
      \<lparr>urlValid = True, addTrackOk = True, insertTimeRangeOk = True, exportSessionOk = True,
       exportStatus = Completed\<rparr>
      \<lparr>videoTracks = [], audioTracks = 1\<rparr> ''16'' ''center'' = Rejected ''NO_VIDEO_TRACK''"
    by (simp add: cropVideo_def cropVideoRun_def first_def)
  have c2: "cropVideoRun decimalDigits
      \<lparr>urlValid = True, addTrackOk = True, insertTimeRangeOk = True, exportSessionOk = True,
       exportStatus = Completed\<rparr>
      \<lparr>videoTracks = [\<lparr>naturalSize = \<lparr>width = 1920, height = 1080\<rparr>,
                       preferredTransform = identity\<rparr>], audioTracks = 1\<rparr>
      ''16'' ''center''
     = (Rejected ''INVALID_ASPECT_RATIO'', [AssetCreated, VideoTracksRead])"
    by (simp add: cropVideoRun_def first_def parseAspectRatio_def split_separator_def)
  note c3 = cropVideoRun_examples(1)
  from c1 c2 c3 show ?thesis by (simp add: k)
qed

subsection \<open>Illegal angles\<close>

text \<open>
  C8. For every angle outside 90, -90, 180 and 270 (45 for one) a rotation request made
  through \<open>rotateVideo\<close> or \<open>cropAndRotateVideo\<close> of the JavaScript module is rejected with an
  invalid-input error: the message names the input path, the aspect ratio or the angle, and
  the native module is not called, so that nothing is produced. (The native \<open>rotateVideo\<close>
  has no check of its own: \<open>rotationTransform\<close> is the identity on such an angle.)
\<close>

theorem js_rejects_illegal_angle:
  "angle \<notin> {JSNumber 90, JSNumber (- 90), JSNumber 180, JSNumber 270} \<Longrightarrow>
     js_rotateVideo native inputPath angle =
       (if invalidString inputPath then Inl ''inputPath must be a valid string''
        else Inl ''angle must be one of: 90, -90, 180, 270'')
     \<and> js_cropAndRotateVideo native4 inputPath aspectRatio angle options =
       (if invalidString inputPath then Inl ''inputPath must be a valid string''
        else if invalidString aspectRatio
          then Inl ''aspectRatio must be a valid string (e.g., \"16:9\", \"1:1\")''
        else Inl ''angle must be one of: 90, -90, 180, 270'')"
  by (simp add: js_rotateVideo_def js_cropAndRotateVideo_def array_includes_def validAngles_def)

theorem js_rejects_illegal_angle_witness:
  "js_rotateVideo (\<lambda>path a. Inr ''/tmp/transformed.mp4'') (JSString ''/in.mp4'') (JSNumber 45)
     = Inl ''angle must be one of: 90, -90, 180, 270''
   \<and> js_cropAndRotateVideo (\<lambda>path r pos a. Inr ''/tmp/transformed.mp4'')
        (JSString ''/in.mp4'') (JSString ''1:1'') (JSNumber 45) None
     = Inl ''angle must be one of: 90, -90, 180, 270''
   \<and> js_rotateVideo (\<lambda>path a. Inr ''/tmp/transformed.mp4'') (JSString ''/in.mp4'') (JSNumber 90)
     = Inr ''/tmp/transformed.mp4''"
  using js_rejects_illegal_angle
      [of "JSNumber 45" "\<lambda>path a. Inr ''/tmp/transformed.mp4''" "JSString ''/in.mp4''"
          "\<lambda>path r pos a. Inr ''/tmp/transformed.mp4''" "JSString ''1:1''" None]
  by (simp add: invalidString_def js_rotateVideo_def array_includes_def validAngles_def)

subsection \<open>Rotation ignores the preferred transform\<close>

lemma rotateVideo_Resolved:
  assumes "rotateVideo p asset angle = Resolved vc"
  shows "\<exists>videoTrack. first (videoTracks asset) = Some videoTrack
           \<and> vc = \<lparr>layerTransform =
                      fst (rotationTransform (width (naturalSize videoTrack))
                             (height (naturalSize videoTrack)) angle),
                    cropRectangle = None,
                    renderSize =
                      snd (rotationTransform (width (naturalSize videoTrack))
                             (height (naturalSize videoTrack)) angle)\<rparr>"
  using assms
  by (auto simp add: rotateVideo_def Let_def export_def
      split: if_splits option.splits prod.splits ExportStatus.splits)

lemma rotateVideo_example:
  "rotateVideo
      \<lparr>urlValid = True, addTrackOk = True, insertTimeRangeOk = True, exportSessionOk = True,
       exportStatus = Completed\<rparr>
      \<lparr>videoTracks = [\<lparr>naturalSize = \<lparr>width = 1920, height = 1080\<rparr>,
                       preferredTransform = rotation (pi / 2)\<rparr>], audioTracks = 1\<rparr> 90
    = Resolved
        \<lparr>layerTransform = \<lparr>ma = 0, mb = 1, mc = - 1, md = 0, mtx = 1080, mty = 0\<rparr>,
         cropRectangle = None,
         renderSize = \<lparr>width = 1080, height = 1920\<rparr>\<rparr>"
  by (simp add: rotateVideo_def first_def rotationTransform_def export_def
      rotated_translation_quarter)

text \<open>
  C10. In \<open>rotateVideo\<close> the transform set on the layer instruction is the freshly computed
  rotation of the natural frame and nothing else: the preferred transform of the source track
  does not enter the result, so a source whose orientation metadata is a quarter turn is
  rotated in its natural frame, not in its displayed frame.
\<close>

theorem rotateVideo_discards_preferredTransform:
  "rotateVideo p (asset\<lparr>videoTracks := videoTrack\<lparr>preferredTransform := t\<rparr> # others\<rparr>) angle
     = rotateVideo p (asset\<lparr>videoTracks := videoTrack # others\<rparr>) angle
   \<and> (rotateVideo p asset angle = Resolved vc \<longrightarrow>
        (\<exists>track. first (videoTracks asset) = Some track
           \<and> layerTransform vc =
               fst (rotationTransform (width (naturalSize track))
                      (height (naturalSize track)) angle)
           \<and> renderSize vc =
               snd (rotationTransform (width (naturalSize track))
                      (height (naturalSize track)) angle)))"
proof (intro conjI impI)
  show "rotateVideo p (asset\<lparr>videoTracks := videoTrack\<lparr>preferredTransform := t\<rparr> # others\<rparr>) angle
     = rotateVideo p (asset\<lparr>videoTracks := videoTrack # others\<rparr>) angle"
    by (simp add: rotateVideo_def first_def)
next
  assume "rotateVideo p asset angle = Resolved vc"
  from rotateVideo_Resolved [OF this]
  show "\<exists>track. first (videoTracks asset) = Some track
           \<and> layerTransform vc =
               fst (rotationTransform (width (naturalSize track))
                      (height (naturalSize track)) angle)
           \<and> renderSize vc =
               snd (rotationTransform (width (naturalSize track))
                      (height (naturalSize track)) angle)"
    by auto
qed

theorem rotateVideo_discards_preferredTransform_witness:
  "rotateVideo
      \<lparr>urlValid = True, addTrackOk = True, insertTimeRangeOk = True, exportSessionOk = True,
       exportStatus = Completed\<rparr>
      \<lparr>videoTracks = [\<lparr>naturalSize = \<lparr>width = 1920, height = 1080\<rparr>,
                       preferredTransform = rotation (pi / 2)\<rparr>], audioTracks = 1\<rparr> 90
    = Resolved
        \<lparr>layerTransform = \<lparr>ma = 0, mb = 1, mc = - 1, md = 0, mtx = 1080, mty = 0\<rparr>,
         cropRectangle = None,
         renderSize = \<lparr>width = 1080, height = 1920\<rparr>\<rparr>
   \<and> fst (rotationTransform 1920 1080 90)
       = \<lparr>ma = 0, mb = 1, mc = - 1, md = 0, mtx = 1080, mty = 0\<rparr>
   \<and> snd (rotationTransform 1920 1080 90) = \<lparr>width = 1080, height = 1920\<rparr>"
  using rotateVideo_discards_preferredTransform
      [where p = "\<lparr>urlValid = True, addTrackOk = True, insertTimeRangeOk = True,
                    exportSessionOk = True, exportStatus = Completed\<rparr>"
         and asset = "\<lparr>videoTracks = [\<lparr>naturalSize = \<lparr>width = 1920, height = 1080\<rparr>,
                       preferredTransform = rotation (pi / 2)\<rparr>], audioTracks = 1\<rparr>"
         and angle = 90
         and videoTrack = "\<lparr>naturalSize = \<lparr>width = 1920, height = 1080\<rparr>,
                       preferredTransform = identity\<rparr>"
         and t = "rotation (pi / 2)" and others = "[]"
         and vc = "\<lparr>layerTransform = \<lparr>ma = 0, mb = 1, mc = - 1, md = 0, mtx = 1080, mty = 0\<rparr>,
                    cropRectangle = None, renderSize = \<lparr>width = 1080, height = 1920\<rparr>\<rparr>"]
    rotateVideo_example
  by (simp add: first_def)

subsection \<open>The muxer in the pipeline\<close>

lemma snoc_split:
  "calls @ [c] = pre @ x # post \<Longrightarrow>
     (pre = calls \<and> x = c \<and> post = []) \<or> (\<exists>post'. post = post' @ [c] \<and> calls = pre @ x # post')"
  by (cases post rule: rev_cases) auto

lemma writesAfterStart_snoc:
  assumes "writesAfterStart calls"
    and "\<And>t buf info. c = WriteSampleData t buf info \<Longrightarrow> Start \<in> set calls"
  shows "writesAfterStart (calls @ [c])"
  unfolding writesAfterStart_def
proof (intro allI impI)
  fix pre t buf info post
  assume "calls @ [c] = pre @ WriteSampleData t buf info # post"
  from snoc_split [OF this] show "Start \<in> set pre"
  proof
    assume "pre = calls \<and> WriteSampleData t buf info = c \<and> post = []"
    then show ?thesis using assms(2) [of t buf info] by simp
  next
    assume "\<exists>post'. post = post' @ [c] \<and> calls = pre @ WriteSampleData t buf info # post'"
    then show ?thesis using assms(1) by (auto simp add: writesAfterStart_def)
  qed
qed

lemma startAfterVideoTrack_snoc:
  assumes "startAfterVideoTrack calls"
    and "c = Start \<Longrightarrow> AddTrack EncoderOutputFormat \<in> set calls"
  shows "startAfterVideoTrack (calls @ [c])"
  unfolding startAfterVideoTrack_def
proof (intro allI impI)
  fix pre post
  assume "calls @ [c] = pre @ Start # post"
  from snoc_split [OF this] show "AddTrack EncoderOutputFormat \<in> set pre"
  proof
    assume "pre = calls \<and> Start = c \<and> post = []"
    then show ?thesis using assms(2) by simp
  next
    assume "\<exists>post'. post = post' @ [c] \<and> calls = pre @ Start # post'"
    then show ?thesis using assms(1) by (auto simp add: startAfterVideoTrack_def)
  qed
qed

lemma loopInvariant_initial:
  "loopInvariant a \<lparr>muxer = newMuxer, videoMuxerTrack = - 1, audioMuxerTrack = - 1,
                      muxerStarted = False\<rparr>"
  by (simp add: loopInvariant_def newMuxer_def writesAfterStart_def startAfterVideoTrack_def)

lemma drainEncoder_invariant:
  assumes "loopInvariant a st" and "drainEncoder a st encoderStatus = (r, st')"
  shows "loopInvariant a st'"
proof (cases encoderStatus)
  case INFO_OUTPUT_FORMAT_CHANGED
  let ?calls = "muxCalls (muxer st)"
  have w1: "writesAfterStart (?calls @ [AddTrack EncoderOutputFormat])"
    using assms(1) by (intro writesAfterStart_snoc) (simp_all add: loopInvariant_def)
  have s1: "startAfterVideoTrack (?calls @ [AddTrack EncoderOutputFormat])"
    using assms(1) by (intro startAfterVideoTrack_snoc) (simp_all add: loopInvariant_def)
  have w2: "writesAfterStart (?calls @ [AddTrack EncoderOutputFormat, Start])"
    using writesAfterStart_snoc [OF w1, of Start] by simp
  have s2: "startAfterVideoTrack (?calls @ [AddTrack EncoderOutputFormat, Start])"
    using startAfterVideoTrack_snoc [OF s1, of Start] by simp
  show ?thesis
    using assms w1 s1 w2 s2 INFO_OUTPUT_FORMAT_CHANGED
    by (auto simp add: drainEncoder_def addTrack_def start_def loopInvariant_def Let_def
        split: if_splits)
next
  case INFO_OTHER
  with assms show ?thesis by (simp add: drainEncoder_def)
next
  case (OutputBuffer outputBuffer info)
  let ?calls = "muxCalls (muxer st)"
  have w1: "muxerStarted st \<Longrightarrow>
              writesAfterStart (?calls @ [WriteSampleData (videoMuxerTrack st) outputBuffer info])"
    using assms(1) by (intro writesAfterStart_snoc) (simp_all add: loopInvariant_def)
  have s1: "startAfterVideoTrack (?calls @ [WriteSampleData (videoMuxerTrack st) outputBuffer info])"
    using assms(1) by (intro startAfterVideoTrack_snoc) (simp_all add: loopInvariant_def)
  show ?thesis
    using assms w1 s1 OutputBuffer
    by (auto simp add: drainEncoder_def writeSampleData_def loopInvariant_def Let_def
        split: if_splits)
qed

lemma videoLoop_invariant:
  "loopInvariant a st \<Longrightarrow> videoLoop a st passes = (r, st') \<Longrightarrow> loopInvariant a st'"
proof (induction passes arbitrary: st)
  case Nil
  then show ?case by simp
next
  case (Cons pass passes)
  show ?case
  proof (cases pass)
    case Throws
    with Cons.prems show ?thesis by simp
  next
    case (Drains encoderStatus)
    obtain e st1 where d: "drainEncoder a st encoderStatus = (e, st1)"
      by (cases "drainEncoder a st encoderStatus")
    have inv1: "loopInvariant a st1"
      by (rule drainEncoder_invariant [OF Cons.prems(1) d])
    show ?thesis
    proof (cases e)
      case Running
      with Cons.prems(2) Drains d have "videoLoop a st1 passes = (r, st')" by simp
      from Cons.IH [OF inv1 this] show ?thesis .
    next
      case EncoderDone
      with Cons.prems(2) Drains d inv1 show ?thesis by simp
    next
      case Exception
      with Cons.prems(2) Drains d inv1 show ?thesis by simp
    qed
  qed
qed

lemma no_start_no_write:
  assumes "writesAfterStart calls" and "Start \<notin> set calls"
  shows "WriteSampleData t buf info \<notin> set calls"
proof
  assume "WriteSampleData t buf info \<in> set calls"
  then obtain pre post where "calls = pre @ WriteSampleData t buf info # post"
    by (auto dest: split_list)
  with assms(1) have "Start \<in> set pre" by (auto simp add: writesAfterStart_def)
  with \<open>calls = pre @ WriteSampleData t buf info # post\<close> assms(2) show False by simp
qed

lemma copySamples_log:
  "\<exists>ws. muxCalls (fst (copySamples m audioTrack samples)) = muxCalls m @ ws
        \<and> (\<forall>c \<in> set ws. \<exists>buf info. c = WriteSampleData audioTrack buf info)
        \<and> muxTracks (fst (copySamples m audioTrack samples)) = muxTracks m
        \<and> muxState (fst (copySamples m audioTrack samples)) = muxState m"
proof (induction samples arbitrary: m)
  case Nil
  then show ?case by simp
next
  case (Cons s rest)
  let ?info = "\<lparr>info_offset = 0, info_size = int (length (sampleData s)),
                 info_presentationTimeUs = sampleTime s, info_flags = sampleFlags s\<rparr>"
  obtain m1 ok where w: "writeSampleData m audioTrack (sampleData s) ?info = (m1, ok)"
    by (cases "writeSampleData m audioTrack (sampleData s) ?info")
  then have m1: "muxCalls m1 = muxCalls m @ [WriteSampleData audioTrack (sampleData s) ?info]"
    "muxTracks m1 = muxTracks m" "muxState m1 = muxState m"
    by (auto simp add: writeSampleData_def Let_def split: if_splits)
  show ?case
  proof (cases ok)
    case False
    with w m1 show ?thesis by simp
  next
    case True
    from Cons.IH [of m1] obtain ws where
      "muxCalls (fst (copySamples m1 audioTrack rest)) = muxCalls m1 @ ws"
      "\<forall>c \<in> set ws. \<exists>buf info. c = WriteSampleData audioTrack buf info"
      "muxTracks (fst (copySamples m1 audioTrack rest)) = muxTracks m1"
      "muxState (fst (copySamples m1 audioTrack rest)) = muxState m1"
      by blast
    with w m1 True show ?thesis
      by (intro exI [of _ "WriteSampleData audioTrack (sampleData s) ?info # ws"]) simp
  qed
qed

lemma copySamples_not_started:
  "muxState m = INITIALIZED \<Longrightarrow>
     muxSamples (fst (copySamples m audioTrack samples)) = muxSamples m
     \<and> (samples \<noteq> [] \<longrightarrow> \<not> snd (copySamples m audioTrack samples))"
  by (cases samples) (simp_all add: writeSampleData_def Let_def)

text \<open>What a started muxer would receive.\<close>

lemma copySamples_started:
  "muxState m = STARTED \<Longrightarrow> 0 \<le> audioTrack \<Longrightarrow> audioTrack < int (length (muxTracks m)) \<Longrightarrow>
     snd (copySamples m audioTrack samples)
     \<and> muxSamples (fst (copySamples m audioTrack samples)) =
         muxSamples m @
           map (\<lambda>s. (audioTrack, sampleData s,
                      \<lparr>info_offset = 0, info_size = int (length (sampleData s)),
                       info_presentationTimeUs = sampleTime s, info_flags = sampleFlags s\<rparr>))
             samples"
  by (induction samples arbitrary: m) (simp_all add: writeSampleData_def Let_def)

lemma processAudioTrack_not_started:
  assumes "muxState m = INITIALIZED"
  shows "\<exists>ws. muxCalls (fst (processAudioTrack m samples))
               = muxCalls m @ AddTrack SourceAudioFormat # ws
           \<and> (\<forall>c \<in> set ws. \<exists>buf info.
                  c = WriteSampleData (int (length (muxTracks m))) buf info)
           \<and> muxTracks (fst (processAudioTrack m samples)) = muxTracks m @ [SourceAudioFormat]
           \<and> muxState (fst (processAudioTrack m samples)) = INITIALIZED
           \<and> muxSamples (fst (processAudioTrack m samples)) = muxSamples m
           \<and> (samples \<noteq> [] \<longrightarrow> \<not> snd (processAudioTrack m samples))"
proof -
  let ?m1 = "m\<lparr>muxCalls := muxCalls m @ [AddTrack SourceAudioFormat],
               muxTracks := muxTracks m @ [SourceAudioFormat]\<rparr>"
  have p: "processAudioTrack m samples = copySamples ?m1 (int (length (muxTracks m))) samples"
    using assms by (simp add: processAudioTrack_def addTrack_def Let_def)
  have s: "muxState ?m1 = INITIALIZED" using assms by simp
  from copySamples_log [of ?m1 "int (length (muxTracks m))" samples]
    copySamples_not_started [OF s, of "int (length (muxTracks m))" samples]
  show ?thesis by (auto simp add: p assms)
qed

lemma lastOf_None_iff: "lastOf xs = None \<longleftrightarrow> xs = []"
  by (simp add: lastOf_def)

lemma processVideoWithGL_muxer:
  assumes "muxerAfter (processVideoWithGL mediaFile passes rotationAngle cropRectOpt) = Some m"
  shows "\<exists>e st.
           videoLoop (audioFormats (tracks mediaFile) = [])
             \<lparr>muxer = newMuxer, videoMuxerTrack = - 1, audioMuxerTrack = - 1,
              muxerStarted = False\<rparr> passes = (e, st)
           \<and> ((m = muxer st \<and> (e = EncoderDone \<longrightarrow> audioFormats (tracks mediaFile) = []))
               \<or> (e = EncoderDone
                   \<and> (\<exists>samples. lastOf (audioFormats (tracks mediaFile)) = Some samples
                         \<and> m = fst (processAudioTrack (muxer st) samples))))"
proof -
  let ?st0 = "\<lparr>muxer = newMuxer, videoMuxerTrack = - 1, audioMuxerTrack = - 1,
               muxerStarted = False\<rparr>"
  obtain e st where l: "videoLoop (audioFormats (tracks mediaFile) = []) ?st0 passes = (e, st)"
    by (cases "videoLoop (audioFormats (tracks mediaFile) = []) ?st0 passes")
  show ?thesis
    using assms l
    by (cases e)
      (auto simp add: processVideoWithGL_def Let_def lastOf_None_iff
        split: if_splits option.splits prod.splits bool.splits)
qed

lemma audio_source_never_started:
  assumes "muxerAfter (processVideoWithGL mediaFile passes rotationAngle cropRectOpt) = Some m"
    and "audioFormats (tracks mediaFile) \<noteq> []"
  shows "Start \<notin> set (muxCalls m)" and "muxSamples m = []"
proof -
  let ?a = "audioFormats (tracks mediaFile) = []"
  let ?st0 = "\<lparr>muxer = newMuxer, videoMuxerTrack = - 1, audioMuxerTrack = - 1,
               muxerStarted = False\<rparr>"
  from processVideoWithGL_muxer [OF assms(1)] obtain e st where
    l: "videoLoop ?a ?st0 passes = (e, st)" and
    m: "(m = muxer st \<and> (e = EncoderDone \<longrightarrow> ?a))
        \<or> (e = EncoderDone
            \<and> (\<exists>samples. lastOf (audioFormats (tracks mediaFile)) = Some samples
                  \<and> m = fst (processAudioTrack (muxer st) samples)))"
    by blast
  have inv: "loopInvariant ?a st"
    by (rule videoLoop_invariant [OF loopInvariant_initial l])
  with assms(2) have ns: "Start \<notin> set (muxCalls (muxer st))"
    and ini: "muxState (muxer st) = INITIALIZED" and em: "muxSamples (muxer st) = []"
    by (auto simp add: loopInvariant_def)
  from m have "Start \<notin> set (muxCalls m) \<and> muxSamples m = []"
  proof
    assume "m = muxer st \<and> (e = EncoderDone \<longrightarrow> ?a)"
    with ns em show ?thesis by simp
  next
    assume "e = EncoderDone
            \<and> (\<exists>samples. lastOf (audioFormats (tracks mediaFile)) = Some samples
                  \<and> m = fst (processAudioTrack (muxer st) samples))"
    then obtain samples where ma: "m = fst (processAudioTrack (muxer st) samples)" by blast
    from processAudioTrack_not_started [OF ini, of samples] ma ns em
    show ?thesis by auto
  qed
  then show "Start \<notin> set (muxCalls m)" and "muxSamples m = []" by simp_all
qed

lemma run_without_audio:
  "processVideoWithGL \<lparr>fileExists = True, tracks = [VideoTrack 1920 1080]\<rparr>
     [Drains INFO_OUTPUT_FORMAT_CHANGED,
      Drains (OutputBuffer [7] \<lparr>info_offset = 0, info_size = 1, info_presentationTimeUs = 0,
                                 info_flags = 1\<rparr>),
      Drains (OutputBuffer [] \<lparr>info_offset = 0, info_size = 0, info_presentationTimeUs = 0,
                                info_flags = 4\<rparr>)] 90 None
   = \<lparr>promise = Fulfilled, dataSourcesOpened = 1, outputSize = Some (1080, 1920),
      muxerAfter = Some
        \<lparr>muxState = STARTED, muxTracks = [EncoderOutputFormat],
         muxSamples = [(0, [7], \<lparr>info_offset = 0, info_size = 1, info_presentationTimeUs = 0,
                                   info_flags = 1\<rparr>)],
         muxCalls = [AddTrack EncoderOutputFormat, Start,
                     WriteSampleData 0 [7] \<lparr>info_offset = 0, info_size = 1,
                                               info_presentationTimeUs = 0, info_flags = 1\<rparr>]\<rparr>\<rparr>"
  by (simp add: processVideoWithGL_def videoFormats_def audioFormats_def lastOf_def newMuxer_def
      drainEncoder_def addTrack_def start_def writeSampleData_def BUFFER_FLAG_END_OF_STREAM_def
      Let_def)

lemma audio_source_never_fulfilled:
  assumes "lastOf (audioFormats (tracks mediaFile)) = Some (s # rest)"
  shows "promise (processVideoWithGL mediaFile passes rotationAngle cropRectOpt) \<noteq> Fulfilled"
proof -
  let ?a = "audioFormats (tracks mediaFile) = []"
  let ?st0 = "\<lparr>muxer = newMuxer, videoMuxerTrack = - 1, audioMuxerTrack = - 1,
               muxerStarted = False\<rparr>"
  from assms have na: "\<not> ?a" by (auto simp add: lastOf_def split: if_splits)
  obtain e st where l: "videoLoop ?a ?st0 passes = (e, st)"
    by (cases "videoLoop ?a ?st0 passes")
  have inv: "loopInvariant ?a st"
    by (rule videoLoop_invariant [OF loopInvariant_initial l])
  with na have ini: "muxState (muxer st) = INITIALIZED"
    by (auto simp add: loopInvariant_def)
  from processAudioTrack_not_started [OF ini, of "s # rest"]
  have "\<not> snd (processAudioTrack (muxer st) (s # rest))" by auto
  then show ?thesis
    using l assms na
    by (cases e)
      (auto simp add: processVideoWithGL_def Let_def lastOf_None_iff
        split: if_splits option.splits prod.splits bool.splits)
qed

text \<open>
  The calls a muxer receives in a run, whatever the codecs do: a sample goes to the track
  of the encoder's output only after a \<open>start\<close>, a \<open>start\<close> comes only after the \<open>addTrack\<close>
  of the encoder's output format, and a run with a \<open>start\<close> is on a source without an audio
  track.
\<close>

lemma muxer_calls_discipline:
  assumes "muxerAfter (processVideoWithGL mediaFile passes rotationAngle cropRectOpt) = Some m"
  shows "(\<forall>pre t buf info post.
            muxCalls m = pre @ WriteSampleData t buf info # post \<longrightarrow>
            0 \<le> t \<longrightarrow> nat t < length (muxTracks m) \<longrightarrow>
            muxTracks m ! nat t = EncoderOutputFormat \<longrightarrow> Start \<in> set pre)
       \<and> (\<forall>pre post.
            muxCalls m = pre @ Start # post \<longrightarrow> AddTrack EncoderOutputFormat \<in> set pre)
       \<and> (Start \<in> set (muxCalls m) \<longrightarrow> audioFormats (tracks mediaFile) = [])"
proof -
  let ?a = "audioFormats (tracks mediaFile) = []"
  let ?st0 = "\<lparr>muxer = newMuxer, videoMuxerTrack = - 1, audioMuxerTrack = - 1,
               muxerStarted = False\<rparr>"
  from processVideoWithGL_muxer [OF assms] obtain e st where
    l: "videoLoop ?a ?st0 passes = (e, st)" and
    m: "(m = muxer st \<and> (e = EncoderDone \<longrightarrow> ?a))
        \<or> (e = EncoderDone
            \<and> (\<exists>samples. lastOf (audioFormats (tracks mediaFile)) = Some samples
                  \<and> m = fst (processAudioTrack (muxer st) samples)))"
    by blast
  have inv: "loopInvariant ?a st"
    by (rule videoLoop_invariant [OF loopInvariant_initial l])
  from m show ?thesis
  proof
    assume "m = muxer st \<and> (e = EncoderDone \<longrightarrow> ?a)"
    then have ms: "m = muxer st" by simp
    have w: "writesAfterStart (muxCalls m)" and s: "startAfterVideoTrack (muxCalls m)"
      and a: "Start \<in> set (muxCalls m) \<longrightarrow> ?a"
      using inv ms by (simp_all add: loopInvariant_def)
    show ?thesis
    proof (intro conjI allI impI)
      fix pre t buf info post
      assume "muxCalls m = pre @ WriteSampleData t buf info # post"
      with w show "Start \<in> set pre" by (auto simp add: writesAfterStart_def)
    next
      fix pre post
      assume c: "muxCalls m = pre @ Start # post"
      with s show "AddTrack EncoderOutputFormat \<in> set pre"
        by (auto simp add: startAfterVideoTrack_def)
    next
      assume "Start \<in> set (muxCalls m)"
      with a show "audioFormats (tracks mediaFile) = []" by simp
    qed
  next
    assume "e = EncoderDone
            \<and> (\<exists>samples. lastOf (audioFormats (tracks mediaFile)) = Some samples
                  \<and> m = fst (processAudioTrack (muxer st) samples))"
    then obtain samples where
      au: "lastOf (audioFormats (tracks mediaFile)) = Some samples" and
      ma: "m = fst (processAudioTrack (muxer st) samples)" by blast
    from au have na: "\<not> ?a" by (auto simp add: lastOf_def split: if_splits)
    with inv have ns: "Start \<notin> set (muxCalls (muxer st))"
      and ini: "muxState (muxer st) = INITIALIZED"
      and w: "writesAfterStart (muxCalls (muxer st))"
      by (auto simp add: loopInvariant_def)
    from processAudioTrack_not_started [OF ini, of samples] ma obtain ws where
      calls: "muxCalls m = muxCalls (muxer st) @ AddTrack SourceAudioFormat # ws" and
      ws: "\<forall>c \<in> set ws. \<exists>buf info.
             c = WriteSampleData (int (length (muxTracks (muxer st)))) buf info" and
      tr: "muxTracks m = muxTracks (muxer st) @ [SourceAudioFormat]"
      by auto
    have nostart: "Start \<notin> set (muxCalls m)" using calls ns ws by auto
    show ?thesis
    proof (intro conjI allI impI)
      fix pre t buf info post
      assume c: "muxCalls m = pre @ WriteSampleData t buf info # post"
        and f: "muxTracks m ! nat t = EncoderOutputFormat"
      from c have "WriteSampleData t buf info \<in> set (muxCalls m)" by simp
      moreover have "WriteSampleData t buf info \<notin> set (muxCalls (muxer st))"
        by (rule no_start_no_write [OF w ns])
      ultimately have "WriteSampleData t buf info \<in> set ws" using calls by simp
      with ws have "t = int (length (muxTracks (muxer st)))" by auto
      with tr have "muxTracks m ! nat t = SourceAudioFormat" by simp
      with f show "Start \<in> set pre" by simp
    next
      fix pre post
      assume c: "muxCalls m = pre @ Start # post"
      then have "Start \<in> set (muxCalls m)" by simp
      with nostart show "AddTrack EncoderOutputFormat \<in> set pre" by simp
    next
      assume "Start \<in> set (muxCalls m)"
      with nostart show "audioFormats (tracks mediaFile) = []" by simp
    qed
  qed
qed


text \<open>
  C9. For a source with an audio track the pipeline is to copy every audio sample as it
  is, with its time and flags, in read order. \<open>processAudioTrack\<close> issues one
  \<open>writeSampleData\<close> for each sample in read order with the sample's bytes, time and flags,
  and a started muxer would store them all (\<open>copySamples_started\<close>). But for such a source
  the muxer is never started, so the first write throws: the run below, with one audio
  sample, is rejected with \<open>PROCESSING_ERROR\<close> and the muxer has stored nothing. No run on a
  source whose audio track has a sample is fulfilled (\<open>audio_source_never_fulfilled\<close>).
\<close>

theorem audio_passthrough_fails:
  "processVideoWithGL
     \<lparr>fileExists = True,
      tracks = [VideoTrack 1920 1080,
                AudioTrack [\<lparr>sampleData = [1, 2, 3], sampleTime = 0, sampleFlags = 1\<rparr>]]\<rparr>
     [Drains INFO_OUTPUT_FORMAT_CHANGED,
      Drains (OutputBuffer [7] \<lparr>info_offset = 0, info_size = 1, info_presentationTimeUs = 0,
                                 info_flags = 1\<rparr>),
      Drains (OutputBuffer [] \<lparr>info_offset = 0, info_size = 0, info_presentationTimeUs = 0,
                                info_flags = 4\<rparr>)] 90 None
   = \<lparr>promise = RejectedWith ''PROCESSING_ERROR'', dataSourcesOpened = 1,
      outputSize = Some (1080, 1920),
      muxerAfter = Some
        \<lparr>muxState = INITIALIZED, muxTracks = [EncoderOutputFormat, SourceAudioFormat],
         muxSamples = [],
         muxCalls = [AddTrack EncoderOutputFormat, AddTrack SourceAudioFormat,
                     WriteSampleData 1 [1, 2, 3]
                       \<lparr>info_offset = 0, info_size = 3, info_presentationTimeUs = 0,
                        info_flags = 1\<rparr>]\<rparr>\<rparr>"
  by (simp add: processVideoWithGL_def videoFormats_def audioFormats_def lastOf_def newMuxer_def
      drainEncoder_def addTrack_def start_def writeSampleData_def processAudioTrack_def
      BUFFER_FLAG_END_OF_STREAM_def Let_def)

end
